theory Spec2Isabelle
  imports Complex_Main "HOL-Library.Sublist"
begin

section \<open>Python values and exceptions\<close>

text \<open>
  The data backend \<^verbatim>\<open>DoubleMLData\<close> (\<^verbatim>\<open>double_ml_data.py\<close>) is dynamically typed: its
  setters inspect the run-time type of the assigned value. The values that reach them
  are modelled by \<open>pyval\<close>; column labels are strings. Every \<^verbatim>\<open>raise\<close> and every
  failing \<^verbatim>\<open>assert\<close> is a value \<open>Inl e\<close> of the result type \<open>error + 'a\<close>.
  A bare \<^verbatim>\<open>assert\<close> raises \<^verbatim>\<open>AssertionError\<close> without any message.
\<close>

datatype pyval =
    PyNone
  | PyStr string
  | PyList "string list"
  | PyInt int
  | PyFloat real
  | PyBool bool

datatype error =
    TypeError string
  | ValueError string
  | AssertionError
  | IndexError
  | KeyError
  | AttributeError
  | NotImplementedError string

fun message :: "error \<Rightarrow> string" where
  "message (TypeError m) = m"
| "message (ValueError m) = m"
| "message (NotImplementedError m) = m"
| "message AssertionError = []"
| "message IndexError = []"
| "message KeyError = []"
| "message AttributeError = []"

fun seq :: "error + 'a \<Rightarrow> ('a \<Rightarrow> error + 'b) \<Rightarrow> error + 'b" where
  "seq (Inl e) f = Inl e"
| "seq (Inr v) f = f v"

fun is_str :: "pyval \<Rightarrow> bool" where
  "is_str (PyStr s) = True"
| "is_str v = False"

fun is_list :: "pyval \<Rightarrow> bool" where
  "is_list (PyList l) = True"
| "is_list v = False"

section \<open>Data frames and arrays\<close>

text \<open>
  A \<^verbatim>\<open>pandas.DataFrame\<close> is its number of rows and its labelled columns, in order
  (labels may repeat). A \<^verbatim>\<open>numpy.ndarray\<close> is one-dimensional (\<open>Arr1\<close>) or
  two-dimensional (\<open>Arr2\<close>: the number of rows and the list of its columns).
  \<^verbatim>\<open>df.loc[:, label]\<close> raises \<^verbatim>\<open>KeyError\<close> for an unknown label, gives a
  \<^verbatim>\<open>Series\<close> when one column carries the label and a frame of all of them otherwise;
  \<^verbatim>\<open>df.loc[:, labels]\<close> gives, label by label, the columns carrying it.
\<close>

record 'v DataFrame =
  nrows :: nat
  cols :: "(string \<times> 'v list) list"

datatype 'v selection = Series "'v list" | Frame "'v DataFrame"

datatype 'v ndarray = Arr1 "'v list" | Arr2 nat "'v list list"

definition columns :: "'v DataFrame \<Rightarrow> string list" where
  "columns df = map fst (cols df)"

definition labelled :: "'v DataFrame \<Rightarrow> string \<Rightarrow> (string \<times> 'v list) list" where
  "labelled df c = filter (\<lambda>p. fst p = c) (cols df)"

definition loc_label :: "'v DataFrame \<Rightarrow> string \<Rightarrow> error + 'v selection" where
  "loc_label df c =
     (case labelled df c of
        [] \<Rightarrow> Inl KeyError
      | [p] \<Rightarrow> Inr (Series (snd p))
      | ps \<Rightarrow> Inr (Frame \<lparr>nrows = nrows df, cols = ps\<rparr>))"

definition loc_list :: "'v DataFrame \<Rightarrow> string list \<Rightarrow> error + 'v DataFrame" where
  "loc_list df cs =
     (if set cs \<subseteq> set (columns df)
      then Inr \<lparr>nrows = nrows df, cols = concat (map (labelled df) cs)\<rparr>
      else Inl KeyError)"

definition frame_values :: "'v DataFrame \<Rightarrow> 'v ndarray" where
  "frame_values df = Arr2 (nrows df) (map snd (cols df))"

fun sel_values :: "'v selection \<Rightarrow> 'v ndarray" where
  "sel_values (Series xs) = Arr1 xs"
| "sel_values (Frame df) = frame_values df"

section \<open>The data backend \<^verbatim>\<open>DoubleMLData\<close>\<close>

text \<open>
  The fields \<open>y_col\<close>, \<open>d_cols\<close>, \<open>x_cols\<close>, \<open>z_cols\<close> are the attributes behind the
  properties of the same name (the getters return them unchanged); \<open>attr_y\<close>, \<open>attr_z\<close>,
  \<open>attr_d\<close>, \<open>attr_X\<close> are the slices \<^verbatim>\<open>_y\<close>, \<^verbatim>\<open>_z\<close>, \<^verbatim>\<open>_d\<close>, \<^verbatim>\<open>_X\<close>.
\<close>

record 'v DoubleMLData =
  data :: "'v DataFrame"
  y_col :: string
  d_cols :: "string list"
  x_cols :: "string list"
  z_cols :: "string list option"
  use_other_treat_as_covariate :: bool
  attr_y :: "'v selection"
  attr_z :: "'v DataFrame option"
  attr_d :: "'v selection"
  attr_X :: "'v DataFrame"

definition all_variables :: "'v DoubleMLData \<Rightarrow> string list" where
  "all_variables self = columns (data self)"

text \<open>The setters of the four column roles (lines 225-280).\<close>

definition x_cols_setter :: "'v DoubleMLData \<Rightarrow> pyval \<Rightarrow> error + 'v DoubleMLData" where
  "x_cols_setter self v =
     (let v = (case v of PyStr s \<Rightarrow> PyList [s] | _ \<Rightarrow> v) in
      case v of
        PyList l \<Rightarrow>
          if set l \<subseteq> set (all_variables self) then Inr (self\<lparr>x_cols := l\<rparr>)
          else Inl AssertionError
      | _ \<Rightarrow> Inl (TypeError ''x_cols must be a list''))"

definition d_cols_setter :: "'v DoubleMLData \<Rightarrow> pyval \<Rightarrow> error + 'v DoubleMLData" where
  "d_cols_setter self v =
     (let v = (case v of PyStr s \<Rightarrow> PyList [s] | _ \<Rightarrow> v) in
      case v of
        PyList l \<Rightarrow>
          if set l \<subseteq> set (all_variables self) then Inr (self\<lparr>d_cols := l\<rparr>)
          else Inl AssertionError
      | _ \<Rightarrow> Inl (TypeError ''d_cols must be a list''))"

definition y_col_setter :: "'v DoubleMLData \<Rightarrow> pyval \<Rightarrow> error + 'v DoubleMLData" where
  "y_col_setter self v =
     (case v of
        PyStr s \<Rightarrow>
          if s \<in> set (all_variables self) then Inr (self\<lparr>y_col := s\<rparr>)
          else Inl AssertionError
      | _ \<Rightarrow> Inl AssertionError)"

definition z_cols_setter :: "'v DoubleMLData \<Rightarrow> pyval \<Rightarrow> error + 'v DoubleMLData" where
  "z_cols_setter self v =
     (if v \<noteq> PyNone then
        (let v = (case v of PyStr s \<Rightarrow> PyList [s] | _ \<Rightarrow> v) in
         case v of
           PyList l \<Rightarrow>
             if set l \<subseteq> set (all_variables self) then Inr (self\<lparr>z_cols := Some l\<rparr>)
             else Inl AssertionError
         | _ \<Rightarrow> Inl (TypeError ''z_cols must be a list''))
      else Inr (self\<lparr>z_cols := None\<rparr>))"

text \<open>\<^verbatim>\<open>_set_y_z\<close> and \<^verbatim>\<open>_set_x_d\<close> (lines 282-297). \<^verbatim>\<open>list.remove\<close> deletes the first
  occurrence and raises \<^verbatim>\<open>ValueError\<close> when there is none.\<close>

definition set_y_z :: "'v DoubleMLData \<Rightarrow> error + 'v DoubleMLData" where
  "set_y_z self =
     seq (loc_label (data self) (y_col self)) (\<lambda>ys.
       case z_cols self of
         None \<Rightarrow> Inr (self\<lparr>attr_y := ys, attr_z := None\<rparr>)
       | Some zc \<Rightarrow>
           seq (loc_list (data self) zc) (\<lambda>zs.
             Inr (self\<lparr>attr_y := ys, attr_z := Some zs\<rparr>)))"

definition list_remove :: "string list \<Rightarrow> string \<Rightarrow> error + string list" where
  "list_remove xs c =
     (if c \<in> set xs then Inr (remove1 c xs)
      else Inl (ValueError ''list.remove(x): x not in list''))"

definition set_x_d :: "'v DoubleMLData \<Rightarrow> string \<Rightarrow> error + 'v DoubleMLData" where
  "set_x_d self treatment_var =
     (if treatment_var \<notin> set (d_cols self) then Inl AssertionError
      else
        seq (if use_other_treat_as_covariate self
             then list_remove (x_cols self @ d_cols self) treatment_var
             else Inr (x_cols self)) (\<lambda>xd_list.
        seq (loc_label (data self) treatment_var) (\<lambda>ds.
        seq (loc_list (data self) xd_list) (\<lambda>Xs.
          Inr (self\<lparr>attr_d := ds, attr_X := Xs\<rparr>)))))"

text \<open>
  \<^verbatim>\<open>__init__\<close> (lines 54-78) assigns the attributes one after the other on a fresh
  object; \<open>fresh\<close> is that object, with placeholders for the attributes not yet assigned
  (each is written before it is read). \<^verbatim>\<open>set(self.y_col)\<close> is the set of the
  one-character strings of the outcome label, since \<^verbatim>\<open>y_col\<close> is a string.
\<close>

definition fresh :: "'v DataFrame \<Rightarrow> 'v DoubleMLData" where
  "fresh df =
     \<lparr>data = df, y_col = [], d_cols = [], x_cols = [], z_cols = None,
      use_other_treat_as_covariate = True,
      attr_y = Series [], attr_z = None, attr_d = Series [],
      attr_X = \<lparr>nrows = 0, cols = []\<rparr>\<rparr>"

definition set_of_str :: "string \<Rightarrow> string set" where
  "set_of_str s = (\<lambda>c. [c]) ` set s"

definition default_x_cols :: "'v DoubleMLData \<Rightarrow> string list" where
  "default_x_cols self =
     (case z_cols self of
        Some zc \<Rightarrow>
          (let y_d_z = set_of_str (y_col self) \<union> set (d_cols self) \<union> set zc in
           filter (\<lambda>col. col \<notin> y_d_z) (columns (data self)))
      | None \<Rightarrow>
          (let y_d = set_of_str (y_col self) \<union> set (d_cols self) in
           filter (\<lambda>col. col \<notin> y_d) (columns (data self))))"

definition init ::
  "'v DataFrame \<Rightarrow> pyval \<Rightarrow> pyval \<Rightarrow> pyval \<Rightarrow> pyval \<Rightarrow> bool \<Rightarrow> error + 'v DoubleMLData" where
  "init df y_col0 d_cols0 x_cols0 z_cols0 use_other =
     seq (y_col_setter (fresh df) y_col0) (\<lambda>s1.
     seq (d_cols_setter s1 d_cols0) (\<lambda>s2.
     seq (z_cols_setter s2 z_cols0) (\<lambda>s3.
     seq (if x_cols0 \<noteq> PyNone
          then x_cols_setter (s3\<lparr>use_other_treat_as_covariate := use_other\<rparr>) x_cols0
          else x_cols_setter (s3\<lparr>use_other_treat_as_covariate := use_other\<rparr>)
                 (PyList (default_x_cols (s3\<lparr>use_other_treat_as_covariate := use_other\<rparr>))))
         (\<lambda>s5.
     seq (set_y_z s5) (\<lambda>s6.
       case d_cols s6 of
         [] \<Rightarrow> Inl IndexError
       | t # ts \<Rightarrow> set_x_d s6 t)))))"

text \<open>The accessors (lines 153-216).\<close>

definition get_x :: "'v DoubleMLData \<Rightarrow> 'v ndarray" where
  "get_x self = frame_values (attr_X self)"

definition get_y :: "'v DoubleMLData \<Rightarrow> 'v ndarray" where
  "get_y self = sel_values (attr_y self)"

definition get_d :: "'v DoubleMLData \<Rightarrow> 'v ndarray" where
  "get_d self = sel_values (attr_d self)"

definition get_z :: "'v DoubleMLData \<Rightarrow> error + 'v ndarray option" where
  "get_z self =
     (case z_cols self of
        Some zc \<Rightarrow>
          (case attr_z self of
             Some zs \<Rightarrow> Inr (Some (frame_values zs))
           | None \<Rightarrow> Inl AttributeError)
      | None \<Rightarrow> Inr None)"

definition n_treat :: "'v DoubleMLData \<Rightarrow> nat" where
  "n_treat self = length (d_cols self)"

definition n_instr :: "'v DoubleMLData \<Rightarrow> error + nat" where
  "n_instr self =
     (case z_cols self of
        Some zc \<Rightarrow> Inr (length zc)
      | None \<Rightarrow> Inl (TypeError ''object of type 'NoneType' has no len()''))"

definition n_obs :: "'v DoubleMLData \<Rightarrow> nat" where
  "n_obs self = nrows (data self)"

section \<open>Construction from arrays\<close>

text \<open>
  \<^verbatim>\<open>from_arrays\<close> (lines 91-151) names the columns with f-strings: \<open>str_of_nat\<close> is the
  decimal text of a natural number and \<open>numbered p k\<close> the list \<^verbatim>\<open>[f'p{i+1}' for i in
  np.arange(k)]\<close>.
\<close>

definition digit_char :: "nat \<Rightarrow> char" where
  "digit_char k = char_of (48 + k)"

fun str_of_nat :: "nat \<Rightarrow> string" where
  "str_of_nat k = (if k < 10 then [digit_char k] else str_of_nat (k div 10) @ [digit_char (k mod 10)])"

declare str_of_nat.simps [simp del]

definition numbered :: "string \<Rightarrow> nat \<Rightarrow> string list" where
  "numbered p k = map (\<lambda>i. p @ str_of_nat (i + 1)) [0..<k]"

text \<open>
  \<^verbatim>\<open>a.shape[1]\<close> raises \<^verbatim>\<open>IndexError\<close> on a one-dimensional array.
  \<^verbatim>\<open>np.column_stack\<close> turns every one-dimensional array into a column and joins the
  columns of arrays with the same number of rows; \<^verbatim>\<open>pd.DataFrame(a, columns=names)\<close>
  needs one name per column.
\<close>

definition shape1 :: "'v ndarray \<Rightarrow> error + nat" where
  "shape1 a = (case a of Arr1 xs \<Rightarrow> Inl IndexError | Arr2 n cs \<Rightarrow> Inr (length cs))"

fun as_columns :: "'v ndarray \<Rightarrow> nat \<times> 'v list list" where
  "as_columns (Arr1 xs) = (length xs, [xs])"
| "as_columns (Arr2 n cs) = (n, cs)"

definition column_stack :: "'v ndarray list \<Rightarrow> error + 'v ndarray" where
  "column_stack arrs =
     (case map as_columns arrs of
        [] \<Rightarrow> Inl (ValueError ''need at least one array to concatenate'')
      | (n, cs) # rest \<Rightarrow>
          if \<forall>a \<in> set rest. fst a = n
          then Inr (Arr2 n (cs @ concat (map snd rest)))
          else Inl (ValueError ''all the input array dimensions except for the concatenation axis must match exactly''))"

definition make_frame :: "'v ndarray \<Rightarrow> string list \<Rightarrow> error + 'v DataFrame" where
  "make_frame a names =
     (case a of
        Arr1 xs \<Rightarrow> Inl (ValueError ''Shape of passed values does not match the columns'')
      | Arr2 n cs \<Rightarrow>
          if length cs = length names then Inr \<lparr>nrows = n, cols = zip names cs\<rparr>
          else Inl (ValueError ''Shape of passed values does not match the columns''))"

text \<open>
  The helper \<^verbatim>\<open>assure_2d_array\<close> of \<^verbatim>\<open>_helper.py\<close> is not among the sources:
  \<open>from_arrays\<close> takes it as its first argument. It is applied to \<^verbatim>\<open>X\<close> and to \<^verbatim>\<open>d\<close>,
  and not to \<^verbatim>\<open>z\<close>.
\<close>

definition from_arrays ::
  "('v ndarray \<Rightarrow> error + 'v ndarray) \<Rightarrow> 'v ndarray \<Rightarrow> 'v ndarray \<Rightarrow> 'v ndarray \<Rightarrow>
     'v ndarray option \<Rightarrow> bool \<Rightarrow> error + 'v DoubleMLData" where
  "from_arrays assure_2d_array X0 y0 d0 z0 use_other =
     seq (assure_2d_array X0) (\<lambda>X1.
     seq (assure_2d_array d0) (\<lambda>d1.
     seq (case z0 of
            None \<Rightarrow> Inr None
          | Some za \<Rightarrow>
              seq (shape1 za) (\<lambda>k. Inr (Some (if k = 1 then [''z''] else numbered ''z'' k))))
         (\<lambda>zc.
     seq (shape1 d1) (\<lambda>kd.
     seq (shape1 X1) (\<lambda>kx.
     seq (case z0 of
            None \<Rightarrow>
              seq (column_stack [X1, y0, d1]) (\<lambda>a.
                make_frame a
                  (numbered ''X'' kx @ [''y''] @ (if kd = 1 then [''d''] else numbered ''d'' kd)))
          | Some za \<Rightarrow>
              seq (column_stack [X1, y0, d1, za]) (\<lambda>a.
                make_frame a
                  (numbered ''X'' kx @ [''y''] @ (if kd = 1 then [''d''] else numbered ''d'' kd)
                     @ (case zc of Some l \<Rightarrow> l | None \<Rightarrow> []))))
         (\<lambda>df.
       init df (PyStr ''y'') (PyList (if kd = 1 then [''d''] else numbered ''d'' kd))
         (PyList (numbered ''X'' kx))
         (case zc of Some l \<Rightarrow> PyList l | None \<Rightarrow> PyNone) use_other))))))"

section \<open>Auxiliary notions for the statements\<close>

text \<open>
  \<open>names_of\<close> is the list a setter works with after a string has been wrapped into a
  one-element list; \<open>z_list\<close> reads \<^verbatim>\<open>z_cols\<close> with \<^verbatim>\<open>None\<close> as no instrument.
  \<open>roles_in_columns\<close> says that every role names columns of the data frame only, and
  \<open>roles_disjoint\<close> that the four roles are pairwise disjoint.
\<close>

fun names_of :: "pyval \<Rightarrow> string list" where
  "names_of (PyStr s) = [s]"
| "names_of (PyList l) = l"
| "names_of v = []"

definition z_list :: "'v DoubleMLData \<Rightarrow> string list" where
  "z_list self = (case z_cols self of None \<Rightarrow> [] | Some zc \<Rightarrow> zc)"

definition roles_in_columns :: "'v DoubleMLData \<Rightarrow> bool" where
  "roles_in_columns self \<longleftrightarrow>
     y_col self \<in> set (all_variables self) \<and>
     set (d_cols self) \<subseteq> set (all_variables self) \<and>
     set (x_cols self) \<subseteq> set (all_variables self) \<and>
     set (z_list self) \<subseteq> set (all_variables self)"

definition roles_disjoint :: "'v DoubleMLData \<Rightarrow> bool" where
  "roles_disjoint self \<longleftrightarrow>
     y_col self \<notin> set (d_cols self) \<and>
     y_col self \<notin> set (x_cols self) \<and>
     y_col self \<notin> set (z_list self) \<and>
     set (d_cols self) \<inter> set (x_cols self) = {} \<and>
     set (d_cols self) \<inter> set (z_list self) = {} \<and>
     set (x_cols self) \<inter> set (z_list self) = {}"

section \<open>Example data\<close>

definition frame_ydx :: "int DataFrame" where
  "frame_ydx = \<lparr>nrows = 2, cols = [(''y'', [1, 2]), (''d'', [0, 1]), (''x'', [5, 6])]\<rparr>"

definition frame_yy :: "int DataFrame" where
  "frame_yy = \<lparr>nrows = 2, cols = [(''yy'', [1, 2]), (''d'', [0, 1]), (''x'', [5, 6])]\<rparr>"

definition obj_ydx :: "int DoubleMLData" where
  "obj_ydx =
     \<lparr>data = frame_ydx, y_col = ''y'', d_cols = [''d''], x_cols = [''x''], z_cols = None,
      use_other_treat_as_covariate = True,
      attr_y = Series [1, 2], attr_z = None, attr_d = Series [0, 1],
      attr_X = \<lparr>nrows = 2, cols = [(''x'', [5, 6])]\<rparr>\<rparr>"

definition frame_two :: "int DataFrame" where
  "frame_two =
     \<lparr>nrows = 2,
      cols = [(''y'', [1, 2]), (''d1'', [0, 1]), (''d2'', [3, 4]), (''x'', [5, 6])]\<rparr>"

definition obj_two :: "int DoubleMLData" where
  "obj_two =
     \<lparr>data = frame_two, y_col = ''y'', d_cols = [''d1'', ''d2''], x_cols = [''x''],
      z_cols = None, use_other_treat_as_covariate = True,
      attr_y = Series [1, 2], attr_z = None, attr_d = Series [0, 1],
      attr_X = \<lparr>nrows = 2, cols = [(''x'', [5, 6]), (''d2'', [3, 4])]\<rparr>\<rparr>"

definition obj_two_d2 :: "int DoubleMLData" where
  "obj_two_d2 =
     obj_two\<lparr>attr_d := Series [3, 4],
             attr_X := \<lparr>nrows = 2, cols = [(''x'', [5, 6]), (''d1'', [0, 1])]\<rparr>\<rparr>"

definition obj_two_plain :: "int DoubleMLData" where
  "obj_two_plain =
     obj_two\<lparr>use_other_treat_as_covariate := False, attr_d := Series [3, 4],
             attr_X := \<lparr>nrows = 2, cols = [(''x'', [5, 6])]\<rparr>\<rparr>"

text \<open>
  An instance of the helper \<^verbatim>\<open>assure_2d_array\<close> for the examples: a vector becomes a
  one-column array, a two-dimensional array is returned as it is.
\<close>

definition column_of_vector :: "'v ndarray \<Rightarrow> error + 'v ndarray" where
  "column_of_vector a = (case a of Arr1 xs \<Rightarrow> Inr (Arr2 (length xs) [xs]) | Arr2 n cs \<Rightarrow> Inr a)"

section \<open>The estimation engine: externally supplied sample splitting\<close>

text \<open>
  A fold is a pair of train and test indices, a fold partition is the folds of one
  repetition. The states of the engine are those of section 4.4 of the specification.
\<close>

type_synonym fold = "nat list \<times> nat list"
type_synonym fold_partition = "fold list"

datatype engine_state = UNFIT | SPLIT | NUISANCE_FITTED | SCORED | SOLVED | AGGREGATED | FAILED

record engine =
  eng_n_obs :: nat
  eng_smpls :: "fold_partition list option"
  eng_state :: engine_state

definition test_sets :: "fold_partition \<Rightarrow> nat list list" where
  "test_sets folds = map snd folds"

text \<open>
  Modelled from the spec: the partition-completeness invariant of section 3 (the engine
  class is not among the sources). In the words of the specification, the union of all
  test sets across the folds of a repetition is the full index set \<open>{0..<n}\<close>, and the test
  sets are pairwise disjoint.
\<close>

definition partition_complete :: "nat \<Rightarrow> fold_partition \<Rightarrow> bool" where
  "partition_complete n folds \<longleftrightarrow>
     (\<Union>t \<in> set (test_sets folds). set t) = {0..<n} \<and>
     (\<forall>i < length folds. \<forall>j < length folds.
        i \<noteq> j \<longrightarrow> set (test_sets folds ! i) \<inter> set (test_sets folds ! j) = {})"

text \<open>
  Modelled from the spec: the check that \<^verbatim>\<open>set_sample_splitting\<close> runs on every supplied
  repetition (the method is not among the sources; only
  \<^verbatim>\<open>test_plr_set_smpls_externally.py\<close> calls it). It is written as a program over the index
  lists: every test list is compared with the ones after it, and the indices that occur
  are compared with \<^verbatim>\<open>range(n)\<close>.
\<close>

fun pairwise_disjoint :: "nat list list \<Rightarrow> bool" where
  "pairwise_disjoint [] = True"
| "pairwise_disjoint (t # ts) = ((\<forall>u \<in> set ts. set t \<inter> set u = {}) \<and> pairwise_disjoint ts)"

definition check_partition :: "nat \<Rightarrow> fold_partition \<Rightarrow> bool" where
  "check_partition n folds \<longleftrightarrow>
     set (concat (test_sets folds)) = set [0..<n] \<and> pairwise_disjoint (test_sets folds)"

text \<open>
  Modelled from the spec: \<^verbatim>\<open>set_sample_splitting\<close> of the engine (section 6, "Externally
  supplied fold partitions"): it validates every repetition before use and fails with a
  structural-validation error otherwise (a \<^verbatim>\<open>ValueError\<close> here); on success the engine
  holds the partitions and is in state \<open>SPLIT\<close>, nothing having been fitted.
\<close>

definition set_sample_splitting :: "engine \<Rightarrow> fold_partition list \<Rightarrow> error + engine" where
  "set_sample_splitting eng all_smpls =
     (if list_all (check_partition (eng_n_obs eng)) all_smpls
      then Inr (eng\<lparr>eng_smpls := Some all_smpls, eng_state := SPLIT\<rparr>)
      else Inl (ValueError ''Invalid partition provided.''))"

definition engine4 :: engine where
  "engine4 = \<lparr>eng_n_obs = 4, eng_smpls = None, eng_state = UNFIT\<rparr>"

section \<open>The potential-quantile model \<^verbatim>\<open>DoubleMLPQ\<close>\<close>

text \<open>
  \<^verbatim>\<open>isinstance\<close> tests on Python values (\<^verbatim>\<open>bool\<close> is a subclass of \<^verbatim>\<open>int\<close>), the
  values they guard, and \<^verbatim>\<open>str(type(v))\<close>.
\<close>

fun type_name :: "pyval \<Rightarrow> string" where
  "type_name PyNone = ''<class 'NoneType'>''"
| "type_name (PyStr s) = ''<class 'str'>''"
| "type_name (PyList l) = ''<class 'list'>''"
| "type_name (PyInt i) = ''<class 'int'>''"
| "type_name (PyFloat x) = ''<class 'float'>''"
| "type_name (PyBool b) = ''<class 'bool'>''"

fun is_float :: "pyval \<Rightarrow> bool" where
  "is_float (PyFloat x) = True"
| "is_float v = False"

fun is_int :: "pyval \<Rightarrow> bool" where
  "is_int (PyInt i) = True"
| "is_int (PyBool b) = True"
| "is_int v = False"

fun is_bool :: "pyval \<Rightarrow> bool" where
  "is_bool (PyBool b) = True"
| "is_bool v = False"

fun float_of :: "pyval \<Rightarrow> real" where
  "float_of (PyFloat x) = x"
| "float_of v = 0"

fun int_of :: "pyval \<Rightarrow> int" where
  "int_of (PyInt i) = i"
| "int_of (PyBool b) = (if b then 1 else 0)"
| "int_of v = 0"

fun bool_of :: "pyval \<Rightarrow> bool" where
  "bool_of (PyBool b) = b"
| "bool_of v = False"

text \<open>
  Modelled from the spec: the class \<^verbatim>\<open>DoubleMLPQ\<close> is not among the sources (only
  \<^verbatim>\<open>test_pq.py\<close> constructs it). Section 7 (a) asks for wrong types and ranges of the
  quantile, treatment and bandwidth parameters to be detected at construction, before any
  fitting; the fixed part of each message is the one \<^verbatim>\<open>test_pq.py\<close> expects (the text
  that prints the rejected number is left out). The data argument is represented by its
  cluster columns, \<open>None\<close> for data without cluster variables.
\<close>

record pq_model =
  pq_treatment :: int
  pq_quantile :: real
  pq_h :: "real option"
  pq_normalize :: bool
  pq_state :: engine_state

text \<open>Modelled from the spec: the check of the quantile (a float inside the open unit interval).\<close>

definition check_quantile :: "pyval \<Rightarrow> error + real" where
  "check_quantile quantile =
     (if \<not> is_float quantile
      then Inl (TypeError (''Quantile has to be a float. Object of type '' @ type_name quantile @ '' passed.''))
      else if float_of quantile \<le> 0 \<or> float_of quantile \<ge> 1
      then Inl (ValueError ''Quantile has be between 0 or 1.'')
      else Inr (float_of quantile))"

text \<open>Modelled from the spec: the check of the treatment indicator (an integer, 0 or 1).\<close>

definition check_treatment :: "pyval \<Rightarrow> error + int" where
  "check_treatment treatment =
     (if \<not> is_int treatment
      then Inl (TypeError (''Treatment indicator has to be an integer. Object of type '' @ type_name treatment @ '' passed.''))
      else if int_of treatment \<noteq> 0 \<and> int_of treatment \<noteq> 1
      then Inl (ValueError ''Treatment indicator has be either 0 or 1.'')
      else Inr (int_of treatment))"

text \<open>Modelled from the spec: the check of the bandwidth (absent, or a positive float).\<close>

definition check_bandwidth :: "pyval \<Rightarrow> error + real option" where
  "check_bandwidth h =
     (if h = PyNone then Inr None
      else if \<not> is_float h
      then Inl (TypeError (''Bandwidth has to be a float. Object of type '' @ type_name h @ '' passed.''))
      else if float_of h \<le> 0
      then Inl (ValueError ''Bandwidth has be positive.'')
      else Inr (Some (float_of h)))"

text \<open>Modelled from the spec: the check of the normalization indicator (a boolean).\<close>

definition check_normalize :: "pyval \<Rightarrow> error + bool" where
  "check_normalize normalize0 =
     (if \<not> is_bool normalize0
      then Inl (TypeError (''Normalization indicator has to be boolean. Object of type '' @ type_name normalize0 @ '' passed.''))
      else Inr (bool_of normalize0))"

text \<open>
  Modelled from the spec: the constructor of \<^verbatim>\<open>DoubleMLPQ\<close>. By section 7 (d) data with
  declared cluster variables is refused with the named error of \<^verbatim>\<open>test_pq.py\<close>; then the
  parameters are checked; the model returned has not been fitted (state \<open>UNFIT\<close>).
\<close>

definition DoubleMLPQ_init ::
  "string list option \<Rightarrow> pyval \<Rightarrow> pyval \<Rightarrow> pyval \<Rightarrow> pyval \<Rightarrow> error + pq_model" where
  "DoubleMLPQ_init cluster_cols treatment quantile h normalize0 =
     (if cluster_cols \<noteq> None
      then Inl (NotImplementedError ''Estimation with clustering not implemented.'')
      else
        seq (check_quantile quantile) (\<lambda>q.
        seq (check_treatment treatment) (\<lambda>t.
        seq (check_bandwidth h) (\<lambda>b.
        seq (check_normalize normalize0) (\<lambda>nz.
          Inr \<lparr>pq_treatment = t, pq_quantile = q, pq_h = b, pq_normalize = nz,
               pq_state = UNFIT\<rparr>)))))"

text \<open>
  Modelled from the spec: \<^verbatim>\<open>DoubleMLPQ.tune\<close> (section 7 (d): tuning for quantile
  estimators is an unimplemented combination).
\<close>

definition DoubleMLPQ_tune :: "pq_model \<Rightarrow> 'g \<Rightarrow> error + pq_model" where
  "DoubleMLPQ_tune self param_grids =
     Inl (NotImplementedError ''Nuisance tuning not implemented for potential quantiles.'')"

text \<open>The parameter values that the constructor accepts.\<close>

definition valid_quantile :: "pyval \<Rightarrow> bool" where
  "valid_quantile q \<longleftrightarrow> is_float q \<and> 0 < float_of q \<and> float_of q < 1"

definition valid_treatment :: "pyval \<Rightarrow> bool" where
  "valid_treatment t \<longleftrightarrow> is_int t \<and> (int_of t = 0 \<or> int_of t = 1)"

definition valid_bandwidth :: "pyval \<Rightarrow> bool" where
  "valid_bandwidth h \<longleftrightarrow> h = PyNone \<or> is_float h \<and> 0 < float_of h"

section \<open>Basic facts about the setters and the constructor\<close>

lemma seq_Inr_iff: "seq m f = Inr b \<longleftrightarrow> (\<exists>a. m = Inr a \<and> f a = Inr b)"
  by (cases m) auto

lemma x_cols_setter_eq:
  "x_cols_setter self v =
     (if is_str v \<or> is_list v
      then (if set (names_of v) \<subseteq> set (all_variables self)
            then Inr (self\<lparr>x_cols := names_of v\<rparr>) else Inl AssertionError)
      else Inl (TypeError ''x_cols must be a list''))"
  by (cases v) (simp_all add: x_cols_setter_def)

lemma d_cols_setter_eq:
  "d_cols_setter self v =
     (if is_str v \<or> is_list v
      then (if set (names_of v) \<subseteq> set (all_variables self)
            then Inr (self\<lparr>d_cols := names_of v\<rparr>) else Inl AssertionError)
      else Inl (TypeError ''d_cols must be a list''))"
  by (cases v) (simp_all add: d_cols_setter_def)

lemma z_cols_setter_eq:
  "z_cols_setter self v =
     (if v = PyNone then Inr (self\<lparr>z_cols := None\<rparr>)
      else if is_str v \<or> is_list v
      then (if set (names_of v) \<subseteq> set (all_variables self)
            then Inr (self\<lparr>z_cols := Some (names_of v)\<rparr>) else Inl AssertionError)
      else Inl (TypeError ''z_cols must be a list''))"
  by (cases v) (simp_all add: z_cols_setter_def)

lemma y_col_setter_eq:
  "y_col_setter self v =
     (if is_str v \<and> set (names_of v) \<subseteq> set (all_variables self)
      then Inr (self\<lparr>y_col := hd (names_of v)\<rparr>) else Inl AssertionError)"
  by (cases v) (simp_all add: y_col_setter_def)

lemma set_y_z_Inr:
  assumes "set_y_z self = Inr s'"
  shows "\<exists>ys zs. loc_label (data self) (y_col self) = Inr ys \<and> s' = self\<lparr>attr_y := ys, attr_z := zs\<rparr>"
  using assms by (auto simp: set_y_z_def seq_Inr_iff split: option.splits)

lemma set_x_d_Inr:
  assumes "set_x_d self t = Inr s'"
  shows "t \<in> set (d_cols self) \<and>
         (\<exists>ds Xs. loc_label (data self) t = Inr ds \<and>
            loc_list (data self)
              (if use_other_treat_as_covariate self
               then remove1 t (x_cols self @ d_cols self) else x_cols self) = Inr Xs \<and>
            s' = self\<lparr>attr_d := ds, attr_X := Xs\<rparr>)"
  using assms by (auto simp: set_x_d_def seq_Inr_iff list_remove_def split: if_splits)


lemma all_variables_simps [simp]:
  "all_variables (s\<lparr>y_col := a\<rparr>) = all_variables s"
  "all_variables (s\<lparr>d_cols := b\<rparr>) = all_variables s"
  "all_variables (s\<lparr>x_cols := b\<rparr>) = all_variables s"
  "all_variables (s\<lparr>z_cols := c\<rparr>) = all_variables s"
  "all_variables (s\<lparr>use_other_treat_as_covariate := e\<rparr>) = all_variables s"
  "all_variables (s\<lparr>attr_y := f\<rparr>) = all_variables s"
  "all_variables (s\<lparr>attr_z := g\<rparr>) = all_variables s"
  "all_variables (s\<lparr>attr_d := f'\<rparr>) = all_variables s"
  "all_variables (s\<lparr>attr_X := h\<rparr>) = all_variables s"
  "all_variables (fresh df) = columns df"
  by (simp_all add: all_variables_def fresh_def)

lemma default_x_cols_eq:
  "default_x_cols self =
     filter (\<lambda>col. col \<notin> set_of_str (y_col self) \<union> set (d_cols self) \<union> set (z_list self))
       (columns (data self))"
  by (simp add: default_x_cols_def z_list_def split: option.splits)

lemma init_steps:
  assumes "init df y d x z u = Inr obj"
  shows "\<exists>s5 ys zs ds Xs.
    is_str y \<and> set (names_of y) \<subseteq> set (columns df) \<and>
    (is_str d \<or> is_list d) \<and> set (names_of d) \<subseteq> set (columns df) \<and>
    (z = PyNone \<or> (is_str z \<or> is_list z) \<and> set (names_of z) \<subseteq> set (columns df)) \<and>
    (x = PyNone \<or> (is_str x \<or> is_list x) \<and> set (names_of x) \<subseteq> set (columns df)) \<and>
    s5 = (fresh df)\<lparr>y_col := hd (names_of y), d_cols := names_of d,
            z_cols := (if z = PyNone then None else Some (names_of z)),
            use_other_treat_as_covariate := u\<rparr> \<and>
    names_of d \<noteq> [] \<and>
    loc_label df (hd (names_of y)) = Inr ys \<and>
    loc_label df (hd (names_of d)) = Inr ds \<and>
    obj = s5\<lparr>x_cols := (if x \<noteq> PyNone then names_of x else default_x_cols s5),
             attr_y := ys, attr_z := zs, attr_d := ds, attr_X := Xs\<rparr> \<and>
    loc_list df (if u then remove1 (hd (names_of d)) (x_cols obj @ names_of d) else x_cols obj) = Inr Xs"
proof -
  from assms obtain s1 s2 s3 s5 s6 where
    1: "y_col_setter (fresh df) y = Inr s1" and
    2: "d_cols_setter s1 d = Inr s2" and
    3: "z_cols_setter s2 z = Inr s3" and
    5: "(if x \<noteq> PyNone
          then x_cols_setter (s3\<lparr>use_other_treat_as_covariate := u\<rparr>) x
          else x_cols_setter (s3\<lparr>use_other_treat_as_covariate := u\<rparr>)
                 (PyList (default_x_cols (s3\<lparr>use_other_treat_as_covariate := u\<rparr>)))) = Inr s5" and
    6: "set_y_z s5 = Inr s6" and
    7: "(case d_cols s6 of [] \<Rightarrow> Inl IndexError | t # ts \<Rightarrow> set_x_d s6 t) = Inr obj"
    unfolding init_def seq_Inr_iff by blast
  from 1 have y: "is_str y" "set (names_of y) \<subseteq> set (columns df)"
    and s1: "s1 = (fresh df)\<lparr>y_col := hd (names_of y)\<rparr>"
    by (auto simp: y_col_setter_eq split: if_splits)
  from 2 have d: "is_str d \<or> is_list d" "set (names_of d) \<subseteq> set (columns df)"
    and s2: "s2 = s1\<lparr>d_cols := names_of d\<rparr>"
    by (auto simp: d_cols_setter_eq s1 split: if_splits)
  from 3 have z: "z = PyNone \<or> (is_str z \<or> is_list z) \<and> set (names_of z) \<subseteq> set (columns df)"
    and s3: "s3 = s2\<lparr>z_cols := (if z = PyNone then None else Some (names_of z))\<rparr>"
    by (auto simp: z_cols_setter_eq s1 s2 split: if_splits)
  define s4 where "s4 = s3\<lparr>use_other_treat_as_covariate := u\<rparr>"
  have dflt: "set (default_x_cols s4) \<subseteq> set (all_variables s4)"
    by (auto simp: default_x_cols_eq all_variables_def)
  from 5 have x: "x = PyNone \<or> (is_str x \<or> is_list x) \<and> set (names_of x) \<subseteq> set (columns df)"
    and s5: "s5 = s4\<lparr>x_cols := (if x \<noteq> PyNone then names_of x else default_x_cols s4)\<rparr>"
    using dflt unfolding s4_def[symmetric]
    by (auto simp: x_cols_setter_eq s1 s2 s3 s4_def split: if_splits)
  from set_y_z_Inr[OF 6] obtain ys zs where
    ys: "loc_label (data s5) (y_col s5) = Inr ys" and s6: "s6 = s5\<lparr>attr_y := ys, attr_z := zs\<rparr>"
    by blast
  from 7 obtain t ts where dc: "d_cols s6 = t # ts" and 8: "set_x_d s6 t = Inr obj"
    by (auto split: list.splits)
  from set_x_d_Inr[OF 8] obtain ds Xs where
    ds: "loc_label (data s6) t = Inr ds" and
    Xs: "loc_list (data s6) (if use_other_treat_as_covariate s6
               then remove1 t (x_cols s6 @ d_cols s6) else x_cols s6) = Inr Xs" and
    obj: "obj = s6\<lparr>attr_d := ds, attr_X := Xs\<rparr>"
    by blast
  have fields: "data s6 = df" "y_col s6 = hd (names_of y)" "d_cols s6 = names_of d"
    "use_other_treat_as_covariate s6 = u" "x_cols s6 = x_cols obj"
    by (simp_all add: s6 s5 s4_def s3 s2 s1 obj fresh_def)
  have t: "t = hd (names_of d)" "names_of d \<noteq> []"
    using dc fields(3) by auto
  have Xs': "loc_list df (if u then remove1 (hd (names_of d)) (x_cols obj @ names_of d)
                           else x_cols obj) = Inr Xs"
    using Xs by (simp only: fields t(1))
  have obj': "obj = s4\<lparr>x_cols := (if x \<noteq> PyNone then names_of x else default_x_cols s4),
             attr_y := ys, attr_z := zs, attr_d := ds, attr_X := Xs\<rparr>"
    by (simp add: obj s6 s5)
  have s4': "s4 = (fresh df)\<lparr>y_col := hd (names_of y), d_cols := names_of d,
            z_cols := (if z = PyNone then None else Some (names_of z)),
            use_other_treat_as_covariate := u\<rparr>"
    by (simp add: s4_def s3 s2 s1)
  have ys': "loc_label df (hd (names_of y)) = Inr ys"
    using ys by (simp add: s5 s4_def s3 s2 s1 fresh_def)
  have ds': "loc_label df (hd (names_of d)) = Inr ds"
    using ds by (simp only: fields t(1))
  from y d z x s4' t(2) ys' ds' obj' Xs' show ?thesis
    by blast
qed


lemma init_fields:
  assumes "init df y d x z u = Inr obj"
  shows "data obj = df" and "y_col obj = hd (names_of y)" and "d_cols obj = names_of d"
    and "z_cols obj = (if z = PyNone then None else Some (names_of z))"
    and "use_other_treat_as_covariate obj = u"
    and "x_cols obj = (if x \<noteq> PyNone then names_of x else default_x_cols obj)"
  using init_steps[OF assms] by (auto simp: fresh_def default_x_cols_def)

lemma init_valid:
  assumes "init df y d x z u = Inr obj"
  shows "is_str y" and "is_str d \<or> is_list d" and "d_cols obj \<noteq> []"
    and "z = PyNone \<or> is_str z \<or> is_list z"
    and "x = PyNone \<or> is_str x \<or> is_list x"
    and "roles_in_columns obj"
proof -
  show "is_str y" "is_str d \<or> is_list d" "z = PyNone \<or> is_str z \<or> is_list z"
    "x = PyNone \<or> is_str x \<or> is_list x"
    using init_steps[OF assms] by blast+
  show "d_cols obj \<noteq> []"
    using init_steps[OF assms] init_fields(3)[OF assms] by auto
  have "y_col obj \<in> set (columns df)"
    using init_steps[OF assms] init_fields(2)[OF assms] by (cases y) auto
  moreover have "set (d_cols obj) \<subseteq> set (columns df)"
    using init_steps[OF assms] init_fields(3)[OF assms] by auto
  moreover have "set (z_list obj) \<subseteq> set (columns df)"
    using init_steps[OF assms] init_fields(4)[OF assms] by (auto simp: z_list_def)
  moreover have "set (x_cols obj) \<subseteq> set (columns df)"
    using init_steps[OF assms] init_fields(6)[OF assms] init_fields(1)[OF assms]
    by (auto simp: default_x_cols_eq)
  ultimately show "roles_in_columns obj"
    by (simp add: roles_in_columns_def all_variables_def init_fields(1)[OF assms])
qed

lemma init_selects_first:
  assumes "init df y d x z u = Inr obj"
  shows "set_x_d obj (hd (d_cols obj)) = Inr obj"
proof -
  from init_steps[OF assms] obtain s5 ys zs ds Xs where
    nd: "names_of d \<noteq> []" and
    ds: "loc_label df (hd (names_of d)) = Inr ds" and
    obj: "obj = s5\<lparr>x_cols := (if x \<noteq> PyNone then names_of x else default_x_cols s5),
             attr_y := ys, attr_z := zs, attr_d := ds, attr_X := Xs\<rparr>" and
    Xs: "loc_list df (if u then remove1 (hd (names_of d)) (x_cols obj @ names_of d)
                      else x_cols obj) = Inr Xs"
    by blast
  have a: "attr_d obj = ds" "attr_X obj = Xs" by (simp_all add: obj)
  have "obj\<lparr>attr_d := ds, attr_X := Xs\<rparr> = obj"
    using a by simp
  then show ?thesis
    using nd ds Xs init_fields[OF assms]
    by (auto simp: set_x_d_def list_remove_def)
qed

lemma init_roles_in_columns:
  assumes "init df y d x z u = Inr obj"
  shows "roles_in_columns obj \<and>
         (x = PyNone \<longrightarrow> set (x_cols obj) \<inter> (set (d_cols obj) \<union> set (z_list obj)) = {})"
  using init_valid(6)[OF assms] init_fields(6)[OF assms]
  by (auto simp: default_x_cols_eq)

lemma z_list_simps [simp]:
  "z_list (s\<lparr>y_col := a\<rparr>) = z_list s"
  "z_list (s\<lparr>d_cols := b\<rparr>) = z_list s"
  "z_list (s\<lparr>x_cols := b\<rparr>) = z_list s"
  "z_list (s\<lparr>z_cols := None\<rparr>) = []"
  "z_list (s\<lparr>z_cols := Some c\<rparr>) = c"
  by (simp_all add: z_list_def)

lemma setters_keep_roles_in_columns:
  assumes "roles_in_columns s"
    and "y_col_setter s v = Inr s' \<or> d_cols_setter s v = Inr s' \<or>
         x_cols_setter s v = Inr s' \<or> z_cols_setter s v = Inr s'"
  shows "roles_in_columns s'"
  using assms
  by (cases v) (auto simp: roles_in_columns_def y_col_setter_eq d_cols_setter_eq x_cols_setter_eq
      z_cols_setter_eq split: if_splits)

lemmas eval_defs =
  init_def fresh_def y_col_setter_def d_cols_setter_def z_cols_setter_def x_cols_setter_def
  all_variables_def columns_def set_of_str_def default_x_cols_def set_y_z_def set_x_d_def
  loc_label_def loc_list_def labelled_def list_remove_def

lemma init_obj_ydx:
  "init frame_ydx (PyStr ''y'') (PyList [''d'']) PyNone PyNone True = Inr obj_ydx"
  by (simp add: eval_defs frame_ydx_def obj_ydx_def)

section \<open>Column roles and their validation\<close>

text \<open>
  C1 (as amended). A successful construction, and a successful assignment to \<^verbatim>\<open>y_col\<close>,
  \<^verbatim>\<open>d_cols\<close>, \<^verbatim>\<open>x_cols\<close> or \<^verbatim>\<open>z_cols\<close>, leaves every role naming columns of the data
  frame only: that is all the setters check. No role is compared with another one. When
  \<^verbatim>\<open>x_cols\<close> is left to its default \<^verbatim>\<open>None\<close>, the covariates chosen by the constructor
  share no column with the treatments and the instruments.
\<close>

theorem roles_checked_against_columns_only:
  "(init df y d x z u = Inr obj \<longrightarrow>
      roles_in_columns obj \<and>
      (x = PyNone \<longrightarrow> set (x_cols obj) \<inter> (set (d_cols obj) \<union> set (z_list obj)) = {})) \<and>
   (roles_in_columns s \<and>
      (y_col_setter s v = Inr s' \<or> d_cols_setter s v = Inr s' \<or>
       x_cols_setter s v = Inr s' \<or> z_cols_setter s v = Inr s') \<longrightarrow>
      roles_in_columns s')"
  using init_roles_in_columns setters_keep_roles_in_columns by blast

theorem roles_checked_against_columns_only_witness:
  "init frame_ydx (PyStr ''y'') (PyList [''d'']) PyNone PyNone True = Inr obj_ydx \<and>
   roles_in_columns obj_ydx \<and>
   set (x_cols obj_ydx) \<inter> (set (d_cols obj_ydx) \<union> set (z_list obj_ydx)) = {} \<and>
   x_cols_setter obj_ydx (PyStr ''y'') = Inr (obj_ydx\<lparr>x_cols := [''y'']\<rparr>) \<and>
   roles_in_columns (obj_ydx\<lparr>x_cols := [''y'']\<rparr>)"
proof -
  have s: "x_cols_setter obj_ydx (PyStr ''y'') = Inr (obj_ydx\<lparr>x_cols := [''y'']\<rparr>)"
    by (simp add: x_cols_setter_def all_variables_def columns_def obj_ydx_def frame_ydx_def)
  from roles_checked_against_columns_only
         [of frame_ydx "PyStr ''y''" "PyList [''d'']" PyNone PyNone True obj_ydx
             obj_ydx "PyStr ''y''" "obj_ydx\<lparr>x_cols := [''y'']\<rparr>"]
       init_obj_ydx s
  show ?thesis by simp
qed

text \<open>
  C1 as stated fails: the outcome column is accepted as a covariate, and the object is
  constructed with two roles sharing the column \<^verbatim>\<open>y\<close>.
\<close>

theorem shared_column_accepted:
  "map_sum id roles_disjoint
     (init frame_ydx (PyStr ''y'') (PyList [''d'']) (PyList [''y'']) PyNone True) = Inr False"
  by (simp add: eval_defs frame_ydx_def roles_disjoint_def z_list_def)

text \<open>
  For an outcome label of one character the default covariates are the columns that are
  neither outcome nor treatment nor instrument.
\<close>

lemma set_of_str_single: "length s = 1 \<Longrightarrow> set_of_str s = {s}"
  by (cases s) (auto simp: set_of_str_def)

lemma default_x_cols_single_char:
  assumes "init df y d PyNone z u = Inr obj" and "length (y_col obj) = 1"
  shows "x_cols obj =
           filter (\<lambda>col. col \<noteq> y_col obj \<and> col \<notin> set (d_cols obj) \<and> col \<notin> set (z_list obj))
             (columns df)"
  using init_fields(6)[OF assms(1)] init_fields(1)[OF assms(1)] set_of_str_single[OF assms(2)]
  by (simp add: default_x_cols_eq)

text \<open>
  C2. With the outcome column \<^verbatim>\<open>yy\<close> and \<^verbatim>\<open>x_cols=None\<close>, the default covariates are
  computed from \<^verbatim>\<open>set(self.y_col)\<close>, the set of the characters of the label: the
  outcome column \<^verbatim>\<open>yy\<close> itself stays among the covariates.
\<close>

theorem default_x_cols_keeps_long_outcome_name:
  "map_sum id x_cols (init frame_yy (PyStr ''yy'') (PyList [''d'']) PyNone PyNone True)
     = Inr [''yy'', ''x'']"
  by (simp add: eval_defs frame_yy_def)

text \<open>
  After construction the \<^verbatim>\<open>z\<close> accessor is \<^verbatim>\<open>None\<close> without instruments and the selected
  instrument columns otherwise, where \<^verbatim>\<open>n_instr\<close> is their number.
\<close>

lemma set_y_z_instruments:
  assumes "set_y_z self = Inr s'"
  shows "case z_cols self of
           None \<Rightarrow> attr_z s' = None
         | Some zc \<Rightarrow> \<exists>Z. loc_list (data self) zc = Inr Z \<and> attr_z s' = Some Z"
proof (cases "z_cols self")
  case None
  with assms show ?thesis by (auto simp: set_y_z_def seq_Inr_iff)
next
  case (Some zc)
  with assms obtain ys Z where "loc_list (data self) zc = Inr Z"
    and "s' = self\<lparr>attr_y := ys, attr_z := Some Z\<rparr>"
    by (auto simp: set_y_z_def seq_Inr_iff)
  with Some show ?thesis by simp
qed

lemma init_instruments:
  assumes "init df y d x z u = Inr obj"
  shows "case z_cols obj of
           None \<Rightarrow> get_z obj = Inr None
         | Some zc \<Rightarrow>
             n_instr obj = Inr (length zc) \<and>
             (\<exists>Z. loc_list df zc = Inr Z \<and> get_z obj = Inr (Some (frame_values Z)))"
proof -
  from assms obtain s5 s6 where
    6: "set_y_z s5 = Inr s6" and
    7: "(case d_cols s6 of [] \<Rightarrow> Inl IndexError | t # ts \<Rightarrow> set_x_d s6 t) = Inr obj"
    unfolding init_def seq_Inr_iff by blast
  from set_y_z_Inr[OF 6] obtain ys zs where s6: "s6 = s5\<lparr>attr_y := ys, attr_z := zs\<rparr>"
    by blast
  from 7 obtain t where "set_x_d s6 t = Inr obj" by (auto split: list.splits)
  from set_x_d_Inr[OF this] obtain ds Xs where obj: "obj = s6\<lparr>attr_d := ds, attr_X := Xs\<rparr>"
    by blast
  have same: "z_cols obj = z_cols s5" "attr_z obj = attr_z s6" "data s5 = data obj"
    by (simp_all add: obj s6)
  from set_y_z_instruments[OF 6] same init_fields(1)[OF assms] show ?thesis
    by (auto simp: get_z_def n_instr_def split: option.splits)
qed

text \<open>
  C7. On an object constructed without instruments, \<^verbatim>\<open>n_instr\<close> evaluates
  \<^verbatim>\<open>len(None)\<close> and raises \<^verbatim>\<open>TypeError\<close>; it does not return zero.
\<close>

theorem n_instr_fails_without_instruments:
  "map_sum id n_instr (init frame_ydx (PyStr ''y'') (PyList [''d'']) PyNone PyNone True)
     = Inr (Inl (TypeError ''object of type 'NoneType' has no len()''))"
  by (simp add: init_obj_ydx n_instr_def obj_ydx_def)

section \<open>The covariate and treatment slices\<close>

lemma labelled_fst: "p \<in> set (labelled df c) \<Longrightarrow> fst p = c"
  by (simp add: labelled_def)

lemma labelled_nonempty: "c \<in> set (columns df) \<Longrightarrow> labelled df c \<noteq> []"
  by (auto simp: labelled_def columns_def filter_empty_conv)

lemma loc_list_labels:
  assumes "loc_list df cs = Inr F"
  shows "set (columns F) = set cs"
proof -
  from assms have sub: "set cs \<subseteq> set (columns df)"
    and F: "cols F = concat (map (labelled df) cs)"
    by (auto simp: loc_list_def split: if_splits)
  show ?thesis
  proof
    show "set (columns F) \<subseteq> set cs"
      by (auto simp: columns_def F dest: labelled_fst)
    show "set cs \<subseteq> set (columns F)"
    proof
      fix c assume c: "c \<in> set cs"
      then have "labelled df c \<noteq> []" using sub labelled_nonempty by blast
      then obtain p where p: "p \<in> set (labelled df c)" by (cases "labelled df c") auto
      then have "fst p = c" by (rule labelled_fst)
      moreover have "p \<in> set (cols F)" using p c by (auto simp: F)
      ultimately show "c \<in> set (columns F)" by (force simp: columns_def)
    qed
  qed
qed

lemma remove1_other_treatments:
  assumes "t \<notin> set xs" and "distinct ds"
  shows "remove1 t (xs @ ds) = xs @ removeAll t ds"
  using assms by (simp add: remove1_append distinct_remove1_removeAll remove1_idem)

lemma set_x_d_selection:
  assumes "set_x_d self t = Inr s'"
  shows "t \<in> set (d_cols self)"
    and "Inr (get_d s') = map_sum id sel_values (loc_label (data self) t)"
    and "\<not> use_other_treat_as_covariate self \<Longrightarrow>
           Inr (get_x s') = map_sum id frame_values (loc_list (data self) (x_cols self)) \<and>
           set (columns (attr_X s')) = set (x_cols self)"
    and "use_other_treat_as_covariate self \<Longrightarrow> t \<notin> set (x_cols self) \<Longrightarrow> distinct (d_cols self) \<Longrightarrow>
           Inr (get_x s') = map_sum id frame_values
              (loc_list (data self) (x_cols self @ removeAll t (d_cols self))) \<and>
           set (columns (attr_X s')) = set (x_cols self) \<union> (set (d_cols self) - {t}) \<and>
           t \<notin> set (columns (attr_X s'))"
proof -
  from set_x_d_Inr[OF assms] obtain ds Xs where
    t: "t \<in> set (d_cols self)" and
    ds: "loc_label (data self) t = Inr ds" and
    Xs: "loc_list (data self)
              (if use_other_treat_as_covariate self
               then remove1 t (x_cols self @ d_cols self) else x_cols self) = Inr Xs" and
    s': "s' = self\<lparr>attr_d := ds, attr_X := Xs\<rparr>"
    by blast
  show "t \<in> set (d_cols self)" by (rule t)
  show "Inr (get_d s') = map_sum id sel_values (loc_label (data self) t)"
    by (simp add: ds s' get_d_def)
  { assume "\<not> use_other_treat_as_covariate self"
    with Xs have X: "loc_list (data self) (x_cols self) = Inr Xs" by simp
    show "Inr (get_x s') = map_sum id frame_values (loc_list (data self) (x_cols self)) \<and>
           set (columns (attr_X s')) = set (x_cols self)"
      using loc_list_labels[OF X] by (simp add: X s' get_x_def) }
  { assume u: "use_other_treat_as_covariate self" and nx: "t \<notin> set (x_cols self)"
      and dd: "distinct (d_cols self)"
    from Xs u have X: "loc_list (data self) (x_cols self @ removeAll t (d_cols self)) = Inr Xs"
      by (simp only: remove1_other_treatments[OF nx dd] if_True)
    show "Inr (get_x s') = map_sum id frame_values
              (loc_list (data self) (x_cols self @ removeAll t (d_cols self))) \<and>
           set (columns (attr_X s')) = set (x_cols self) \<union> (set (d_cols self) - {t}) \<and>
           t \<notin> set (columns (attr_X s'))"
      using loc_list_labels[OF X] nx by (auto simp: X s' get_x_def) }
qed

lemma init_obj_two:
  "init frame_two (PyStr ''y'') (PyList [''d1'', ''d2'']) PyNone PyNone True = Inr obj_two"
  by (simp add: eval_defs frame_two_def obj_two_def)

lemma set_x_d_obj_two:
  "set_x_d obj_two ''d2'' = Inr obj_two_d2"
  "set_x_d (obj_two\<lparr>use_other_treat_as_covariate := False\<rparr>) ''d2'' = Inr obj_two_plain"
  by (simp_all add: eval_defs frame_two_def obj_two_def obj_two_d2_def obj_two_plain_def)

text \<open>
  C4 (as amended). The constructor selects the first treatment variable: the object it
  returns is a fixed point of \<^verbatim>\<open>_set_x_d(d_cols[0])\<close>. After \<^verbatim>\<open>_set_x_d(t)\<close> has
  succeeded, \<open>t\<close> is one of the treatment columns and the \<^verbatim>\<open>d\<close> accessor is the column
  \<open>t\<close> of the data. Without \<^verbatim>\<open>use_other_treat_as_covariate\<close> the \<^verbatim>\<open>x\<close> accessor is exactly
  the columns \<^verbatim>\<open>x_cols\<close>. With it, and provided \<open>t\<close> is not itself listed in \<^verbatim>\<open>x_cols\<close>
  and \<^verbatim>\<open>d_cols\<close> has no repeated entry, the \<^verbatim>\<open>x\<close> accessor is exactly the columns
  \<^verbatim>\<open>x_cols\<close> followed by the treatment columns other than \<open>t\<close>, and \<open>t\<close> is not among them.
\<close>

theorem x_d_follow_selected_treatment:
  "(init df y d x z u = Inr obj \<longrightarrow>
      d_cols obj \<noteq> [] \<and> set_x_d obj (hd (d_cols obj)) = Inr obj) \<and>
   (set_x_d self t = Inr s' \<longrightarrow>
      t \<in> set (d_cols self) \<and>
      Inr (get_d s') = map_sum id sel_values (loc_label (data self) t) \<and>
      (\<not> use_other_treat_as_covariate self \<longrightarrow>
         Inr (get_x s') = map_sum id frame_values (loc_list (data self) (x_cols self)) \<and>
         set (columns (attr_X s')) = set (x_cols self)) \<and>
      (use_other_treat_as_covariate self \<and> t \<notin> set (x_cols self) \<and> distinct (d_cols self) \<longrightarrow>
         Inr (get_x s') = map_sum id frame_values
            (loc_list (data self) (x_cols self @ removeAll t (d_cols self))) \<and>
         set (columns (attr_X s')) = set (x_cols self) \<union> (set (d_cols self) - {t}) \<and>
         t \<notin> set (columns (attr_X s'))))"
proof (intro conjI impI)
  assume "init df y d x z u = Inr obj"
  then show "d_cols obj \<noteq> []" and "set_x_d obj (hd (d_cols obj)) = Inr obj"
    by (rule init_valid(3), rule init_selects_first)
next
  assume a: "set_x_d self t = Inr s'"
  show "t \<in> set (d_cols self)" by (rule set_x_d_selection(1)[OF a])
  show "Inr (get_d s') = map_sum id sel_values (loc_label (data self) t)"
    by (rule set_x_d_selection(2)[OF a])
  { assume n: "\<not> use_other_treat_as_covariate self"
    show "Inr (get_x s') = map_sum id frame_values (loc_list (data self) (x_cols self))"
      and "set (columns (attr_X s')) = set (x_cols self)"
      using set_x_d_selection(3)[OF a n] by simp_all }
  { assume h: "use_other_treat_as_covariate self \<and> t \<notin> set (x_cols self) \<and> distinct (d_cols self)"
    then have r: "Inr (get_x s') = map_sum id frame_values
            (loc_list (data self) (x_cols self @ removeAll t (d_cols self))) \<and>
         set (columns (attr_X s')) = set (x_cols self) \<union> (set (d_cols self) - {t}) \<and>
         t \<notin> set (columns (attr_X s'))"
      using set_x_d_selection(4)[OF a] by blast
    show "Inr (get_x s') = map_sum id frame_values
            (loc_list (data self) (x_cols self @ removeAll t (d_cols self)))"
      and "set (columns (attr_X s')) = set (x_cols self) \<union> (set (d_cols self) - {t})"
      and "t \<notin> set (columns (attr_X s'))"
      using r by blast+ }
qed

theorem x_d_follow_selected_treatment_witness:
  "init frame_two (PyStr ''y'') (PyList [''d1'', ''d2'']) PyNone PyNone True = Inr obj_two \<and>
   set_x_d obj_two (hd (d_cols obj_two)) = Inr obj_two \<and>
   set_x_d obj_two ''d2'' = Inr obj_two_d2 \<and>
   get_d obj_two_d2 = Arr1 [3, 4] \<and>
   get_x obj_two_d2 = Arr2 2 [[5, 6], [0, 1]] \<and>
   set (columns (attr_X obj_two_d2)) = {''x'', ''d1''} \<and>
   ''d2'' \<notin> set (columns (attr_X obj_two_d2)) \<and>
   set_x_d (obj_two\<lparr>use_other_treat_as_covariate := False\<rparr>) ''d2'' = Inr obj_two_plain \<and>
   get_d obj_two_plain = Arr1 [3, 4] \<and>
   get_x obj_two_plain = Arr2 2 [[5, 6]] \<and>
   set (columns (attr_X obj_two_plain)) = {''x''}"
proof -
  have l1: "loc_label frame_two ''d2'' = Inr (Series [3, 4])"
    by (simp add: loc_label_def labelled_def frame_two_def)
  have l2: "loc_list frame_two [''x'', ''d1'']
              = Inr \<lparr>nrows = 2, cols = [(''x'', [5, 6]), (''d1'', [0, 1])]\<rparr>"
    by (simp add: loc_list_def labelled_def columns_def frame_two_def)
  have l3: "loc_list frame_two [''x''] = Inr \<lparr>nrows = 2, cols = [(''x'', [5, 6])]\<rparr>"
    by (simp add: loc_list_def labelled_def columns_def frame_two_def)
  have f: "data obj_two = frame_two" "x_cols obj_two = [''x'']"
    "d_cols obj_two = [''d1'', ''d2'']" "use_other_treat_as_covariate obj_two"
    by (simp_all add: obj_two_def)
  from x_d_follow_selected_treatment
         [of frame_two "PyStr ''y''" "PyList [''d1'', ''d2'']" PyNone PyNone True obj_two
             obj_two "''d2''" obj_two_d2]
       init_obj_two set_x_d_obj_two(1)
  have a: "set_x_d obj_two (hd (d_cols obj_two)) = Inr obj_two"
    "get_d obj_two_d2 = Arr1 [3, 4]"
    "get_x obj_two_d2 = Arr2 2 [[5, 6], [0, 1]]"
    "set (columns (attr_X obj_two_d2)) = {''x'', ''d1''}"
    "''d2'' \<notin> set (columns (attr_X obj_two_d2))"
    by (auto simp: f l1 l2 frame_values_def)
  from x_d_follow_selected_treatment
         [of frame_two "PyStr ''y''" "PyList [''d1'', ''d2'']" PyNone PyNone True obj_two
             "obj_two\<lparr>use_other_treat_as_covariate := False\<rparr>" "''d2''" obj_two_plain]
       set_x_d_obj_two(2)
  have b: "get_d obj_two_plain = Arr1 [3, 4]"
    "get_x obj_two_plain = Arr2 2 [[5, 6]]"
    "set (columns (attr_X obj_two_plain)) = {''x''}"
    by (auto simp: f l1 l3 frame_values_def)
  from a b init_obj_two set_x_d_obj_two show ?thesis by simp
qed

text \<open>
  C4 as stated fails: with the treatment \<^verbatim>\<open>d\<close> also listed as a covariate (which the
  constructor accepts), \<^verbatim>\<open>list.remove\<close> deletes the copy coming from \<^verbatim>\<open>x_cols\<close> and the
  \<^verbatim>\<open>x\<close> accessor is the treatment column itself.
\<close>

theorem treatment_kept_among_covariates:
  "map_sum id (columns \<circ> attr_X)
     (init frame_ydx (PyStr ''y'') (PyList [''d'']) (PyList [''d'']) PyNone True) = Inr [''d''] \<and>
   map_sum id get_x
     (init frame_ydx (PyStr ''y'') (PyList [''d'']) (PyList [''d'']) PyNone True)
       = Inr (Arr2 2 [[0, 1]]) \<and>
   map_sum id get_d
     (init frame_ydx (PyStr ''y'') (PyList [''d'']) (PyList [''d'']) PyNone True)
       = Inr (Arr1 [0, 1])"
  by (simp add: eval_defs frame_ydx_def get_x_def get_d_def frame_values_def)

section \<open>Invalid assignments to the column roles\<close>

text \<open>
  C8 (as amended). An invalid assignment to a column role fails at once and stores
  nothing. A value that is neither a string nor a list makes the setters of \<^verbatim>\<open>x_cols\<close>,
  \<^verbatim>\<open>d_cols\<close> and (unless it is \<^verbatim>\<open>None\<close>) \<^verbatim>\<open>z_cols\<close> raise \<^verbatim>\<open>TypeError\<close> with a message
  that starts with the name of the parameter. A non-string \<^verbatim>\<open>y_col\<close>, and any value
  naming a column that the data frame does not have, fails a bare \<^verbatim>\<open>assert\<close>:
  \<^verbatim>\<open>AssertionError\<close> with an empty message.
\<close>

theorem setters_reject_invalid_values:
  "(\<not> is_str v \<and> \<not> is_list v \<longrightarrow>
      x_cols_setter self v = Inl (TypeError ''x_cols must be a list'') \<and>
      d_cols_setter self v = Inl (TypeError ''d_cols must be a list'') \<and>
      (v \<noteq> PyNone \<longrightarrow> z_cols_setter self v = Inl (TypeError ''z_cols must be a list''))) \<and>
   (\<not> is_str v \<longrightarrow> y_col_setter self v = Inl AssertionError) \<and>
   ((is_str v \<or> is_list v) \<and> \<not> set (names_of v) \<subseteq> set (all_variables self) \<longrightarrow>
      x_cols_setter self v = Inl AssertionError \<and>
      d_cols_setter self v = Inl AssertionError \<and>
      z_cols_setter self v = Inl AssertionError) \<and>
   (is_str v \<and> \<not> set (names_of v) \<subseteq> set (all_variables self) \<longrightarrow>
      y_col_setter self v = Inl AssertionError) \<and>
   prefix ''x_cols'' (message (TypeError ''x_cols must be a list'')) \<and>
   prefix ''d_cols'' (message (TypeError ''d_cols must be a list'')) \<and>
   prefix ''z_cols'' (message (TypeError ''z_cols must be a list'')) \<and>
   message AssertionError = []"
  by (cases v) (simp_all add: x_cols_setter_eq d_cols_setter_eq z_cols_setter_eq y_col_setter_eq)

theorem setters_reject_invalid_values_witness:
  "x_cols_setter obj_ydx (PyInt 5) = Inl (TypeError ''x_cols must be a list'') \<and>
   d_cols_setter obj_ydx (PyInt 5) = Inl (TypeError ''d_cols must be a list'') \<and>
   z_cols_setter obj_ydx (PyInt 5) = Inl (TypeError ''z_cols must be a list'') \<and>
   y_col_setter obj_ydx (PyInt 5) = Inl AssertionError \<and>
   x_cols_setter obj_ydx (PyList [''w'']) = Inl AssertionError \<and>
   d_cols_setter obj_ydx (PyList [''w'']) = Inl AssertionError \<and>
   z_cols_setter obj_ydx (PyList [''w'']) = Inl AssertionError \<and>
   y_col_setter obj_ydx (PyStr ''w'') = Inl AssertionError"
proof -
  have c: "all_variables obj_ydx = [''y'', ''d'', ''x'']"
    by (simp add: all_variables_def columns_def obj_ydx_def frame_ydx_def)
  from setters_reject_invalid_values[of "PyInt 5" obj_ydx]
       setters_reject_invalid_values[of "PyList [''w'']" obj_ydx]
       setters_reject_invalid_values[of "PyStr ''w''" obj_ydx]
  show ?thesis by (simp add: c)
qed

text \<open>
  C8 as stated fails: the error raised for a non-string outcome and for an unknown
  column carries no message at all, hence names no parameter.
\<close>

theorem assertion_failures_carry_no_message:
  "map_sum message id (y_col_setter obj_ydx (PyInt 5)) = Inl [] \<and>
   map_sum message id (x_cols_setter obj_ydx (PyList [''w''])) = Inl []"
  by (simp add: y_col_setter_def x_cols_setter_def all_variables_def columns_def
      obj_ydx_def frame_ydx_def)

section \<open>Validation of supplied fold partitions\<close>

lemma pairwise_disjoint_iff:
  "pairwise_disjoint ts \<longleftrightarrow>
     (\<forall>i < length ts. \<forall>j < length ts. i \<noteq> j \<longrightarrow> set (ts ! i) \<inter> set (ts ! j) = {})"
proof (induction ts)
  case Nil
  show ?case by simp
next
  case (Cons t ts)
  show ?case
  proof
    assume l: "pairwise_disjoint (t # ts)"
    then have hd: "\<forall>u \<in> set ts. set t \<inter> set u = {}" and tl: "pairwise_disjoint ts" by simp_all
    show "\<forall>i < length (t # ts). \<forall>j < length (t # ts). i \<noteq> j \<longrightarrow>
            set ((t # ts) ! i) \<inter> set ((t # ts) ! j) = {}"
    proof (intro allI impI)
      fix i j assume i: "i < length (t # ts)" and j: "j < length (t # ts)" and ne: "i \<noteq> j"
      show "set ((t # ts) ! i) \<inter> set ((t # ts) ! j) = {}"
      proof (cases i)
        case 0
        then obtain j' where j': "j = Suc j'" using ne by (cases j) auto
        then have "ts ! j' \<in> set ts" using j by simp
        then show ?thesis using hd 0 j' by simp
      next
        case (Suc i')
        show ?thesis
        proof (cases j)
          case 0
          have "ts ! i' \<in> set ts" using i Suc by simp
          then show ?thesis using hd 0 Suc by auto
        next
          case (Suc j')
          with \<open>i = Suc i'\<close> i j ne tl Cons.IH show ?thesis by simp
        qed
      qed
    qed
  next
    assume r: "\<forall>i < length (t # ts). \<forall>j < length (t # ts). i \<noteq> j \<longrightarrow>
            set ((t # ts) ! i) \<inter> set ((t # ts) ! j) = {}"
    have "\<forall>u \<in> set ts. set t \<inter> set u = {}"
    proof
      fix u assume "u \<in> set ts"
      then obtain k where k: "k < length ts" "ts ! k = u" by (auto simp: in_set_conv_nth)
      from r[rule_format, of 0 "Suc k"] k show "set t \<inter> set u = {}" by simp
    qed
    moreover have "pairwise_disjoint ts"
    proof -
      have "\<forall>i < length ts. \<forall>j < length ts. i \<noteq> j \<longrightarrow> set (ts ! i) \<inter> set (ts ! j) = {}"
      proof (intro allI impI)
        fix i j assume "i < length ts" "j < length ts" "i \<noteq> j"
        with r[rule_format, of "Suc i" "Suc j"] show "set (ts ! i) \<inter> set (ts ! j) = {}" by simp
      qed
      then show ?thesis using Cons.IH by simp
    qed
    ultimately show "pairwise_disjoint (t # ts)" by simp
  qed
qed

lemma check_partition_iff: "check_partition n folds \<longleftrightarrow> partition_complete n folds"
  by (simp add: check_partition_def partition_complete_def pairwise_disjoint_iff test_sets_def)

text \<open>
  C9. \<^verbatim>\<open>set_sample_splitting\<close> accepts a sequence of repetitions only if every repetition
  satisfies the partition-completeness invariant (the test sets of its folds are pairwise
  disjoint and their union is \<open>{0..<n}\<close>), and then only stores it (state \<open>SPLIT\<close>: nothing
  is fitted); a sequence with a repetition violating the invariant is refused with the
  structural-validation error.
\<close>

theorem supplied_partitions_validated:
  "(set_sample_splitting eng all_smpls = Inr eng' \<longrightarrow>
      (\<forall>rep \<in> set all_smpls. partition_complete (eng_n_obs eng) rep) \<and>
      eng_smpls eng' = Some all_smpls \<and> eng_state eng' = SPLIT) \<and>
   ((\<exists>rep \<in> set all_smpls. \<not> partition_complete (eng_n_obs eng) rep) \<longrightarrow>
      set_sample_splitting eng all_smpls = Inl (ValueError ''Invalid partition provided.''))"
  by (auto simp: set_sample_splitting_def check_partition_iff list_all_iff)

theorem supplied_partitions_validated_witness:
  "set_sample_splitting engine4 [[([2, 3], [0, 1]), ([0, 1], [2, 3])]]
     = Inr (engine4\<lparr>eng_smpls := Some [[([2, 3], [0, 1]), ([0, 1], [2, 3])]], eng_state := SPLIT\<rparr>) \<and>
   partition_complete 4 [([2, 3], [0, 1]), ([0, 1], [2, 3])] \<and>
   \<not> partition_complete 4 [([2, 3], [0, 1]), ([0, 3], [1, 2])] \<and>
   set_sample_splitting engine4 [[([2, 3], [0, 1]), ([0, 3], [1, 2])]]
     = Inl (ValueError ''Invalid partition provided.'')"
proof -
  have u: "set [0..<4] = {0, 1, 2, 3::nat}" by (auto simp: upt_rec[of 0] upt_rec[of 1] upt_rec[of 2] upt_rec[of 3])
  have ok: "set_sample_splitting engine4 [[([2, 3], [0, 1]), ([0, 1], [2, 3])]]
     = Inr (engine4\<lparr>eng_smpls := Some [[([2, 3], [0, 1]), ([0, 1], [2, 3])]], eng_state := SPLIT\<rparr>)"
    by (auto simp: set_sample_splitting_def check_partition_def test_sets_def engine4_def u)
  have bad: "\<not> partition_complete 4 [([2, 3], [0, 1]), ([0, 3], [1, 2])]"
    by (auto simp: check_partition_iff[symmetric] check_partition_def test_sets_def u)
  from supplied_partitions_validated
         [of engine4 "[[([2, 3], [0, 1]), ([0, 1], [2, 3])]]"
             "engine4\<lparr>eng_smpls := Some [[([2, 3], [0, 1]), ([0, 1], [2, 3])]], eng_state := SPLIT\<rparr>"]
       supplied_partitions_validated
         [of engine4 "[[([2, 3], [0, 1]), ([0, 3], [1, 2])]]"]
       ok bad
  show ?thesis by (simp add: engine4_def)
qed

section \<open>Configuration errors of \<^verbatim>\<open>DoubleMLPQ\<close>\<close>

lemma check_quantile_valid: "valid_quantile q \<Longrightarrow> check_quantile q = Inr (float_of q)"
  by (auto simp: valid_quantile_def check_quantile_def)

lemma check_treatment_valid: "valid_treatment t \<Longrightarrow> check_treatment t = Inr (int_of t)"
  by (auto simp: valid_treatment_def check_treatment_def)

lemma check_bandwidth_valid: "valid_bandwidth h \<Longrightarrow> \<exists>b. check_bandwidth h = Inr b"
  by (auto simp: valid_bandwidth_def check_bandwidth_def)

text \<open>
  C5. Tuning a potential-quantile model fails with the \<^verbatim>\<open>NotImplementedError\<close>
  "Nuisance tuning not implemented for potential quantiles.", and constructing the model
  on data with declared cluster variables fails with the \<^verbatim>\<open>NotImplementedError\<close>
  "Estimation with clustering not implemented."; no model is returned in either case.
\<close>

theorem unsupported_combinations_fail:
  "DoubleMLPQ_tune m param_grids =
     Inl (NotImplementedError ''Nuisance tuning not implemented for potential quantiles.'') \<and>
   (cluster_cols \<noteq> None \<longrightarrow>
      DoubleMLPQ_init cluster_cols treatment quantile h normalize0 =
        Inl (NotImplementedError ''Estimation with clustering not implemented.''))"
  by (simp add: DoubleMLPQ_tune_def DoubleMLPQ_init_def)

theorem unsupported_combinations_fail_witness:
  "DoubleMLPQ_tune
     \<lparr>pq_treatment = 1, pq_quantile = 0.5, pq_h = None, pq_normalize = True, pq_state = UNFIT\<rparr>
     [(''ml_g'', [5, 10 :: nat]), (''ml_m'', [5, 10]), (''ml_m_prelim'', [5, 10])]
     = Inl (NotImplementedError ''Nuisance tuning not implemented for potential quantiles.'') \<and>
   DoubleMLPQ_init (Some [''cluster_var_i'', ''cluster_var_j'']) (PyInt 1) (PyFloat 0.5) PyNone
     (PyBool True)
     = Inl (NotImplementedError ''Estimation with clustering not implemented.'')"
  using unsupported_combinations_fail
          [of "\<lparr>pq_treatment = 1, pq_quantile = 0.5, pq_h = None, pq_normalize = True,
                pq_state = UNFIT\<rparr>"
              "[(''ml_g'', [5, 10 :: nat]), (''ml_m'', [5, 10]), (''ml_m_prelim'', [5, 10])]"
              "Some [''cluster_var_i'', ''cluster_var_j'']" "PyInt 1" "PyFloat 0.5" PyNone
              "PyBool True"]
  by simp

text \<open>
  C6. On data without cluster variables the constructor checks its parameters in turn: a
  quantile that is not a float raises \<^verbatim>\<open>TypeError\<close>, one outside the open unit interval
  \<^verbatim>\<open>ValueError\<close>; a treatment indicator that is not an integer raises \<^verbatim>\<open>TypeError\<close>, one
  other than 0 and 1 \<^verbatim>\<open>ValueError\<close>; a bandwidth that is not a float raises
  \<^verbatim>\<open>TypeError\<close>, one that is not positive \<^verbatim>\<open>ValueError\<close>; a normalization indicator that
  is not a boolean raises \<^verbatim>\<open>TypeError\<close>. Each message starts with the name of the
  parameter. A model is returned only for valid parameters, and it is unfitted.
\<close>

theorem pq_parameters_checked_at_construction:
  "(\<not> is_float q \<longrightarrow>
      DoubleMLPQ_init None t q h nz =
        Inl (TypeError (''Quantile has to be a float. Object of type '' @ type_name q @ '' passed.''))) \<and>
   (is_float q \<and> (float_of q \<le> 0 \<or> 1 \<le> float_of q) \<longrightarrow>
      DoubleMLPQ_init None t q h nz = Inl (ValueError ''Quantile has be between 0 or 1.'')) \<and>
   (valid_quantile q \<and> \<not> is_int t \<longrightarrow>
      DoubleMLPQ_init None t q h nz =
        Inl (TypeError (''Treatment indicator has to be an integer. Object of type '' @ type_name t @ '' passed.''))) \<and>
   (valid_quantile q \<and> is_int t \<and> int_of t \<noteq> 0 \<and> int_of t \<noteq> 1 \<longrightarrow>
      DoubleMLPQ_init None t q h nz = Inl (ValueError ''Treatment indicator has be either 0 or 1.'')) \<and>
   (valid_quantile q \<and> valid_treatment t \<and> h \<noteq> PyNone \<and> \<not> is_float h \<longrightarrow>
      DoubleMLPQ_init None t q h nz =
        Inl (TypeError (''Bandwidth has to be a float. Object of type '' @ type_name h @ '' passed.''))) \<and>
   (valid_quantile q \<and> valid_treatment t \<and> is_float h \<and> float_of h \<le> 0 \<longrightarrow>
      DoubleMLPQ_init None t q h nz = Inl (ValueError ''Bandwidth has be positive.'')) \<and>
   (valid_quantile q \<and> valid_treatment t \<and> valid_bandwidth h \<and> \<not> is_bool nz \<longrightarrow>
      DoubleMLPQ_init None t q h nz =
        Inl (TypeError (''Normalization indicator has to be boolean. Object of type '' @ type_name nz @ '' passed.''))) \<and>
   (DoubleMLPQ_init None t q h nz = Inr m \<longrightarrow>
      valid_quantile q \<and> valid_treatment t \<and> valid_bandwidth h \<and> is_bool nz \<and>
      pq_state m = UNFIT)"
proof (intro conjI impI)
  assume "\<not> is_float q"
  then show "DoubleMLPQ_init None t q h nz =
        Inl (TypeError (''Quantile has to be a float. Object of type '' @ type_name q @ '' passed.''))"
    by (simp add: DoubleMLPQ_init_def check_quantile_def)
next
  assume "is_float q \<and> (float_of q \<le> 0 \<or> 1 \<le> float_of q)"
  then show "DoubleMLPQ_init None t q h nz = Inl (ValueError ''Quantile has be between 0 or 1.'')"
    by (auto simp: DoubleMLPQ_init_def check_quantile_def)
next
  assume "valid_quantile q \<and> \<not> is_int t"
  then show "DoubleMLPQ_init None t q h nz =
        Inl (TypeError (''Treatment indicator has to be an integer. Object of type '' @ type_name t @ '' passed.''))"
    by (simp add: DoubleMLPQ_init_def check_quantile_valid check_treatment_def)
next
  assume "valid_quantile q \<and> is_int t \<and> int_of t \<noteq> 0 \<and> int_of t \<noteq> 1"
  then show "DoubleMLPQ_init None t q h nz = Inl (ValueError ''Treatment indicator has be either 0 or 1.'')"
    by (simp add: DoubleMLPQ_init_def check_quantile_valid check_treatment_def)
next
  assume "valid_quantile q \<and> valid_treatment t \<and> h \<noteq> PyNone \<and> \<not> is_float h"
  then show "DoubleMLPQ_init None t q h nz =
        Inl (TypeError (''Bandwidth has to be a float. Object of type '' @ type_name h @ '' passed.''))"
    by (simp add: DoubleMLPQ_init_def check_quantile_valid check_treatment_valid check_bandwidth_def)
next
  assume "valid_quantile q \<and> valid_treatment t \<and> is_float h \<and> float_of h \<le> 0"
  then show "DoubleMLPQ_init None t q h nz = Inl (ValueError ''Bandwidth has be positive.'')"
    by (cases h) (simp_all add: DoubleMLPQ_init_def check_quantile_valid check_treatment_valid
        check_bandwidth_def)
next
  assume a: "valid_quantile q \<and> valid_treatment t \<and> valid_bandwidth h \<and> \<not> is_bool nz"
  then obtain b where "check_bandwidth h = Inr b" using check_bandwidth_valid by blast
  with a show "DoubleMLPQ_init None t q h nz =
        Inl (TypeError (''Normalization indicator has to be boolean. Object of type '' @ type_name nz @ '' passed.''))"
    by (simp add: DoubleMLPQ_init_def check_quantile_valid check_treatment_valid check_normalize_def)
next
  assume a: "DoubleMLPQ_init None t q h nz = Inr m"
  then obtain q' t' b' nz' where
    q: "check_quantile q = Inr q'" and t: "check_treatment t = Inr t'" and
    b: "check_bandwidth h = Inr b'" and n: "check_normalize nz = Inr nz'" and
    m: "m = \<lparr>pq_treatment = t', pq_quantile = q', pq_h = b', pq_normalize = nz', pq_state = UNFIT\<rparr>"
    by (auto simp: DoubleMLPQ_init_def seq_Inr_iff)
  from q show "valid_quantile q"
    by (auto simp: check_quantile_def valid_quantile_def split: if_splits)
  from t show "valid_treatment t"
    by (auto simp: check_treatment_def valid_treatment_def split: if_splits)
  from b show "valid_bandwidth h"
    by (auto simp: check_bandwidth_def valid_bandwidth_def split: if_splits)
  from n show "is_bool nz"
    by (auto simp: check_normalize_def split: if_splits)
  from m show "pq_state m = UNFIT" by simp
qed

theorem pq_parameters_checked_at_construction_witness:
  "DoubleMLPQ_init None (PyInt 1) (PyStr ''0.4'') PyNone (PyBool True)
     = Inl (TypeError ''Quantile has to be a float. Object of type <class 'str'> passed.'') \<and>
   DoubleMLPQ_init None (PyInt 1) (PyFloat 1) PyNone (PyBool True)
     = Inl (ValueError ''Quantile has be between 0 or 1.'') \<and>
   DoubleMLPQ_init None (PyStr ''1'') (PyFloat 0.5) PyNone (PyBool True)
     = Inl (TypeError ''Treatment indicator has to be an integer. Object of type <class 'str'> passed.'') \<and>
   DoubleMLPQ_init None (PyInt 2) (PyFloat 0.5) PyNone (PyBool True)
     = Inl (ValueError ''Treatment indicator has be either 0 or 1.'') \<and>
   DoubleMLPQ_init None (PyInt 1) (PyFloat 0.5) (PyStr ''0.1'') (PyBool True)
     = Inl (TypeError ''Bandwidth has to be a float. Object of type <class 'str'> passed.'') \<and>
   DoubleMLPQ_init None (PyInt 1) (PyFloat 0.5) (PyFloat (- 0.1)) (PyBool True)
     = Inl (ValueError ''Bandwidth has be positive.'') \<and>
   DoubleMLPQ_init None (PyInt 1) (PyFloat 0.5) PyNone (PyInt 1)
     = Inl (TypeError ''Normalization indicator has to be boolean. Object of type <class 'int'> passed.'') \<and>
   DoubleMLPQ_init None (PyInt 1) (PyFloat 0.5) PyNone (PyBool True)
     = Inr \<lparr>pq_treatment = 1, pq_quantile = 0.5, pq_h = None, pq_normalize = True, pq_state = UNFIT\<rparr>"
proof -
  have ok: "DoubleMLPQ_init None (PyInt 1) (PyFloat 0.5) PyNone (PyBool True)
     = Inr \<lparr>pq_treatment = 1, pq_quantile = 0.5, pq_h = None, pq_normalize = True, pq_state = UNFIT\<rparr>"
    by (simp add: DoubleMLPQ_init_def check_quantile_def check_treatment_def check_bandwidth_def
        check_normalize_def)
  from pq_parameters_checked_at_construction[of "PyStr ''0.4''" "PyInt 1" PyNone "PyBool True"]
       pq_parameters_checked_at_construction[of "PyFloat 1" "PyInt 1" PyNone "PyBool True"]
       pq_parameters_checked_at_construction[of "PyFloat 0.5" "PyStr ''1''" PyNone "PyBool True"]
       pq_parameters_checked_at_construction[of "PyFloat 0.5" "PyInt 2" PyNone "PyBool True"]
       pq_parameters_checked_at_construction[of "PyFloat 0.5" "PyInt 1" "PyStr ''0.1''" "PyBool True"]
       pq_parameters_checked_at_construction[of "PyFloat 0.5" "PyInt 1" "PyFloat (- 0.1)" "PyBool True"]
       pq_parameters_checked_at_construction[of "PyFloat 0.5" "PyInt 1" PyNone "PyInt 1"]
       pq_parameters_checked_at_construction[of "PyFloat 0.5" "PyInt 1" PyNone "PyBool True"
          "\<lparr>pq_treatment = 1, pq_quantile = 0.5, pq_h = None, pq_normalize = True, pq_state = UNFIT\<rparr>"]
       ok
  show ?thesis
    by (simp add: valid_quantile_def valid_treatment_def valid_bandwidth_def)
qed

section \<open>Construction from arrays: generated names and round trip\<close>

lemma digit_char_inj: "k < 10 \<Longrightarrow> j < 10 \<Longrightarrow> digit_char k = digit_char j \<Longrightarrow> k = j"
proof -
  assume k: "k < 10" and j: "j < 10" and e: "digit_char k = digit_char j"
  have "(of_char (digit_char k) :: nat) = 48 + k" "(of_char (digit_char j) :: nat) = 48 + j"
    using k j by (simp_all add: digit_char_def)
  moreover from e have "(of_char (digit_char k) :: nat) = of_char (digit_char j)"
    by (rule arg_cong)
  ultimately show "k = j" by linarith
qed

lemma str_of_nat_nonempty: "str_of_nat k \<noteq> []"
  by (subst str_of_nat.simps) simp

lemma str_of_nat_small: "k < 10 \<Longrightarrow> str_of_nat k = [digit_char k]"
  by (subst str_of_nat.simps) simp

lemma str_of_nat_large:
  "\<not> k < 10 \<Longrightarrow> str_of_nat k = str_of_nat (k div 10) @ [digit_char (k mod 10)]"
  by (subst str_of_nat.simps) simp

lemma str_of_nat_inj: "str_of_nat k = str_of_nat j \<Longrightarrow> k = j"
proof (induction k arbitrary: j rule: str_of_nat.induct)
  case (1 k)
  show ?case
  proof (cases "k < 10")
    case True
    then have kk: "str_of_nat k = [digit_char k]" by (rule str_of_nat_small)
    have "j < 10"
    proof (rule ccontr)
      assume "\<not> j < 10"
      then have "str_of_nat j = str_of_nat (j div 10) @ [digit_char (j mod 10)]"
        by (rule str_of_nat_large)
      with kk "1.prems" str_of_nat_nonempty[of "j div 10"] show False by simp
    qed
    then have "str_of_nat j = [digit_char j]" by (rule str_of_nat_small)
    with kk "1.prems" True \<open>j < 10\<close> show ?thesis by (simp add: digit_char_inj)
  next
    case False
    then have kk: "str_of_nat k = str_of_nat (k div 10) @ [digit_char (k mod 10)]"
      by (rule str_of_nat_large)
    have nj: "\<not> j < 10"
    proof
      assume "j < 10"
      then have "str_of_nat j = [digit_char j]" by (rule str_of_nat_small)
      with kk "1.prems" str_of_nat_nonempty[of "k div 10"] show False by simp
    qed
    then have jj: "str_of_nat j = str_of_nat (j div 10) @ [digit_char (j mod 10)]"
      by (rule str_of_nat_large)
    from kk jj "1.prems" have a: "str_of_nat (k div 10) = str_of_nat (j div 10)"
      and b: "digit_char (k mod 10) = digit_char (j mod 10)" by simp_all
    from "1.IH"[OF False a] have "k div 10 = j div 10" .
    moreover from b have "k mod 10 = j mod 10" by (simp add: digit_char_inj)
    ultimately show ?thesis by (metis div_mult_mod_eq)
  qed
qed

lemma distinct_numbered: "distinct (numbered p k)"
  by (auto simp: numbered_def distinct_map inj_on_def dest: str_of_nat_inj)

lemma length_numbered [simp]: "length (numbered p k) = k"
  by (simp add: numbered_def)

lemma numbered_hd: "p \<noteq> [] \<Longrightarrow> s \<in> set (numbered p k) \<Longrightarrow> hd s = hd p"
  by (auto simp: numbered_def)

lemma numbered_nonempty: "k \<noteq> 0 \<Longrightarrow> numbered p k \<noteq> []"
  by (simp add: numbered_def)

lemma filter_key_unique:
  assumes "distinct (map fst ps)" and "p \<in> set ps"
  shows "filter (\<lambda>q. fst q = fst p) ps = [p]"
  using assms
proof (induction ps)
  case Nil
  then show ?case by simp
next
  case (Cons a ps)
  show ?case
  proof (cases "a = p")
    case True
    from Cons.prems(1) True have "fst p \<notin> fst ` set ps" by simp
    then have "\<forall>q \<in> set ps. fst q \<noteq> fst p" by (metis imageI)
    then have "filter (\<lambda>q. fst q = fst p) ps = []"
      by (simp add: filter_empty_conv)
    with True show ?thesis by simp
  next
    case False
    with Cons.prems have p: "p \<in> set ps" and d: "distinct (map fst ps)" by auto
    from Cons.prems(1) p have "fst a \<noteq> fst p" by force
    with Cons.IH[OF d p] show ?thesis by simp
  qed
qed

lemma concat_filter_keys:
  assumes "distinct (map fst ps)" and "set qs \<subseteq> set ps"
  shows "concat (map (\<lambda>c. filter (\<lambda>q. fst q = c) ps) (map fst qs)) = qs"
  using assms(2)
proof (induction qs)
  case Nil
  then show ?case by simp
next
  case (Cons q qs)
  then have "q \<in> set ps" "set qs \<subseteq> set ps" by auto
  with Cons.IH filter_key_unique[OF assms(1)] show ?case by simp
qed

lemma loc_label_unique:
  assumes "distinct (columns df)" and "(c, xs) \<in> set (cols df)"
  shows "loc_label df c = Inr (Series xs)"
  using filter_key_unique[of "cols df" "(c, xs)"] assms
  by (simp add: loc_label_def labelled_def columns_def)

lemma loc_list_unique:
  assumes "distinct (columns df)" and "set qs \<subseteq> set (cols df)"
  shows "loc_list df (map fst qs) = Inr \<lparr>nrows = nrows df, cols = qs\<rparr>"
proof -
  have "set (map fst qs) \<subseteq> set (columns df)"
    using assms(2) by (auto simp: columns_def)
  moreover have "concat (map (labelled df) (map fst qs)) = qs"
    using concat_filter_keys[of "cols df" qs] assms
    by (simp add: labelled_def[abs_def] columns_def)
  ultimately show ?thesis by (simp add: loc_list_def)
qed

lemma init_explicit:
  assumes "yc \<in> set (columns df)" and "set D \<subseteq> set (columns df)" and "D \<noteq> []"
    and "set XN \<subseteq> set (columns df)"
    and "loc_label df yc = Inr ysel" and "loc_label df (hd D) = Inr dsel"
    and "loc_list df (if u then remove1 (hd D) (XN @ D) else XN) = Inr Xsel"
    and "case zc of None \<Rightarrow> zsel = None
         | Some l \<Rightarrow> set l \<subseteq> set (columns df) \<and> (\<exists>Z. loc_list df l = Inr Z \<and> zsel = Some Z)"
  shows "init df (PyStr yc) (PyList D) (PyList XN)
           (case zc of Some l \<Rightarrow> PyList l | None \<Rightarrow> PyNone) u =
         Inr \<lparr>data = df, y_col = yc, d_cols = D, x_cols = XN, z_cols = zc,
              use_other_treat_as_covariate = u,
              attr_y = ysel, attr_z = zsel, attr_d = dsel, attr_X = Xsel\<rparr>"
proof (cases zc)
  case None
  with assms show ?thesis
    by (cases D) (auto simp: init_def y_col_setter_def d_cols_setter_def z_cols_setter_def
        x_cols_setter_def fresh_def all_variables_def set_y_z_def set_x_d_def list_remove_def)
next
  case (Some l)
  with assms show ?thesis
    by (cases D) (auto simp: init_def y_col_setter_def d_cols_setter_def z_cols_setter_def
        x_cols_setter_def fresh_def all_variables_def set_y_z_def set_x_d_def list_remove_def)
qed

lemma stacked_frame_init:
  fixes xs ds zs :: "'v list list"
  assumes dist: "distinct (NX @ [yc] @ ND @ NZ)"
    and lx: "length NX = length xs" and ld: "length ND = length ds" and lz: "length NZ = length zs"
    and ne: "ds \<noteq> []"
    and zc: "zc = None \<and> NZ = [] \<or> zc = Some NZ"
    and df: "df = \<lparr>nrows = n, cols = zip (NX @ [yc] @ ND @ NZ) (xs @ [ys] @ ds @ zs)\<rparr>"
  shows "init df (PyStr yc) (PyList ND) (PyList NX)
           (case zc of Some l \<Rightarrow> PyList l | None \<Rightarrow> PyNone) u =
         Inr \<lparr>data = df, y_col = yc, d_cols = ND, x_cols = NX, z_cols = zc,
              use_other_treat_as_covariate = u,
              attr_y = Series ys,
              attr_z = (case zc of None \<Rightarrow> None
                        | Some l \<Rightarrow> Some \<lparr>nrows = n, cols = zip NZ zs\<rparr>),
              attr_d = Series (hd ds),
              attr_X = \<lparr>nrows = n, cols = zip NX xs @ (if u then tl (zip ND ds) else [])\<rparr>\<rparr>"
proof -
  have cols: "cols df = zip NX xs @ [(yc, ys)] @ zip ND ds @ zip NZ zs"
    by (simp add: df lx ld lz)
  have columns: "columns df = NX @ [yc] @ ND @ NZ"
    by (simp add: columns_def cols lx ld lz)
  have dcol: "distinct (columns df)" using dist by (simp only: columns)
  have nr: "nrows df = n" by (simp add: df)
  obtain t ts where ND: "ND = t # ts" using ne ld by (cases ND) auto
  obtain c cs where ds: "ds = c # cs" using ne by (cases ds) auto
  have 1: "yc \<in> set (columns df)" by (simp add: columns)
  have 2: "set ND \<subseteq> set (columns df)" by (auto simp: columns)
  have 3: "ND \<noteq> []" by (simp add: ND)
  have 4: "set NX \<subseteq> set (columns df)" by (auto simp: columns)
  have 5: "loc_label df yc = Inr (Series ys)"
    by (rule loc_label_unique[OF dcol]) (simp add: cols)
  have 6: "loc_label df (hd ND) = Inr (Series (hd ds))"
    by (rule loc_label_unique[OF dcol]) (simp add: cols ND ds)
  have tx: "t \<notin> set NX" using dist by (auto simp: ND)
  have rm: "remove1 (hd ND) (NX @ ND) = NX @ ts"
    using tx by (simp add: ND remove1_append)
  have sel: "map fst (zip NX xs @ (if u then tl (zip ND ds) else [])) =
               (if u then remove1 (hd ND) (NX @ ND) else NX)"
    using ld by (simp add: rm lx) (simp add: ND ds)
  have sub: "set (zip NX xs @ (if u then tl (zip ND ds) else [])) \<subseteq> set (cols df)"
    by (auto simp: cols ND ds)
  have 7: "loc_list df (if u then remove1 (hd ND) (NX @ ND) else NX) =
             Inr \<lparr>nrows = n, cols = zip NX xs @ (if u then tl (zip ND ds) else [])\<rparr>"
    using loc_list_unique[OF dcol sub] by (simp only: sel nr)
  have subz: "set (zip NZ zs) \<subseteq> set (cols df)" by (auto simp: cols)
  have z: "loc_list df NZ = Inr \<lparr>nrows = n, cols = zip NZ zs\<rparr>"
    using loc_list_unique[OF dcol subz] by (simp add: lz nr)
  have 8: "case zc of None \<Rightarrow> (case zc of None \<Rightarrow> None
                        | Some l \<Rightarrow> Some \<lparr>nrows = n, cols = zip NZ zs\<rparr>) = None
         | Some l \<Rightarrow> set l \<subseteq> set (columns df) \<and>
             (\<exists>Z. loc_list df l = Inr Z \<and> (case zc of None \<Rightarrow> None
                        | Some l \<Rightarrow> Some \<lparr>nrows = n, cols = zip NZ zs\<rparr>) = Some Z)"
    using zc z by (auto simp: columns)
  show ?thesis
    by (rule init_explicit[OF 1 2 3 4 5 6 7 8])
qed

lemma role_names_hd:
  assumes "p \<noteq> []" and "s \<in> set (if k = 1 then [p] else numbered p k)"
  shows "hd s = hd p"
  using assms by (auto simp: numbered_hd split: if_splits)

lemma role_names_distinct: "distinct (if k = 1 then [p] else numbered p k)"
  by (simp add: distinct_numbered)

lemma role_names_length: "length (if k = 1 then [p] else numbered p k) = k"
  by simp

lemma generated_names_distinct:
  assumes NX: "NX = numbered ''X'' kx"
    and ND: "ND = (if kd = 1 then [''d''] else numbered ''d'' kd)"
    and NZ: "NZ = [] \<or> NZ = (if kz = 1 then [''z''] else numbered ''z'' kz)"
  shows "distinct (NX @ [''y''] @ ND @ NZ)"
proof -
  have hx: "\<forall>s \<in> set NX. hd s = CHR ''X''"
    using numbered_hd[of "''X''"] by (simp add: NX)
  have hd: "\<forall>s \<in> set ND. hd s = CHR ''d''"
    using role_names_hd[of "''d''" _ kd] by (simp add: ND)
  have hz: "\<forall>s \<in> set NZ. hd s = CHR ''z''"
    using role_names_hd[of "''z''" _ kz] NZ by auto
  have dx: "distinct NX" by (simp add: NX distinct_numbered)
  have dd: "distinct ND" by (simp add: ND distinct_numbered)
  have dz: "distinct NZ" using NZ by (auto simp: distinct_numbered)
  have "''y'' \<notin> set NX" "''y'' \<notin> set ND" "''y'' \<notin> set NZ"
    using hx hd hz by fastforce+
  moreover have "set NX \<inter> set ND = {}" "set NX \<inter> set NZ = {}" "set ND \<inter> set NZ = {}"
    using hx hd hz by fastforce+
  ultimately show ?thesis using dx dd dz by auto
qed

lemma from_arrays_result:
  fixes xs ds zs :: "'v list list"
  assumes X: "assure X = Inr (Arr2 n xs)" and d: "assure d = Inr (Arr2 n ds)"
    and ne: "ds \<noteq> []" and ly: "length ys = n"
    and z: "z = None \<and> zs = [] \<and> zc = None \<or>
            z = Some (Arr2 n zs) \<and>
            zc = Some (if length zs = 1 then [''z''] else numbered ''z'' (length zs))"
    and NX: "NX = numbered ''X'' (length xs)"
    and ND: "ND = (if length ds = 1 then [''d''] else numbered ''d'' (length ds))"
    and NZ: "NZ = (case zc of None \<Rightarrow> [] | Some l \<Rightarrow> l)"
  shows "from_arrays assure X (Arr1 ys) d z u =
         Inr \<lparr>data = \<lparr>nrows = n, cols = zip (NX @ [''y''] @ ND @ NZ) (xs @ [ys] @ ds @ zs)\<rparr>,
              y_col = ''y'', d_cols = ND, x_cols = NX, z_cols = zc,
              use_other_treat_as_covariate = u,
              attr_y = Series ys,
              attr_z = (case zc of None \<Rightarrow> None
                        | Some l \<Rightarrow> Some \<lparr>nrows = n, cols = zip NZ zs\<rparr>),
              attr_d = Series (hd ds),
              attr_X = \<lparr>nrows = n, cols = zip NX xs @ (if u then tl (zip ND ds) else [])\<rparr>\<rparr>"
proof -
  define df where "df = \<lparr>nrows = n, cols = zip (NX @ [''y''] @ ND @ NZ) (xs @ [ys] @ ds @ zs)\<rparr>"
  have lx: "length NX = length xs" by (simp add: NX)
  have ld: "length ND = length ds" by (simp add: ND)
  have lz: "length NZ = length zs" using z by (auto simp: NZ)
  have dist: "distinct (NX @ [''y''] @ ND @ NZ)"
    by (rule generated_names_distinct[OF NX ND, of NZ "length zs"]) (use z NZ in auto)
  have zc': "zc = None \<and> NZ = [] \<or> zc = Some NZ" using z by (auto simp: NZ)
  note I = stacked_frame_init[OF dist lx ld lz ne zc' df_def, of u]
  have "from_arrays assure X (Arr1 ys) d z u =
          init df (PyStr ''y'') (PyList ND) (PyList NX)
            (case zc of Some l \<Rightarrow> PyList l | None \<Rightarrow> PyNone) u"
    using z
  proof
    assume a: "z = None \<and> zs = [] \<and> zc = None"
    then have nz: "NZ = []" by (simp add: NZ)
    have st: "column_stack [Arr2 n xs, Arr1 ys, Arr2 n ds] = Inr (Arr2 n (xs @ [ys] @ ds))"
      by (simp add: column_stack_def ly)
    have mf: "make_frame (Arr2 n (xs @ [ys] @ ds)) (NX @ [''y''] @ ND) = Inr df"
      using a by (simp add: make_frame_def lx ld df_def nz)
    from a have z0: "z = None" and zc0: "zc = None" by simp_all
    show ?thesis
      by (simp only: from_arrays_def X d seq.simps shape1_def ndarray.case option.case z0 zc0
          NX[symmetric] ND[symmetric] st mf)
  next
    assume a: "z = Some (Arr2 n zs) \<and>
            zc = Some (if length zs = 1 then [''z''] else numbered ''z'' (length zs))"
    then have nz: "NZ = (if length zs = 1 then [''z''] else numbered ''z'' (length zs))"
      by (simp add: NZ)
    have st: "column_stack [Arr2 n xs, Arr1 ys, Arr2 n ds, Arr2 n zs]
                = Inr (Arr2 n (xs @ [ys] @ ds @ zs))"
      by (simp add: column_stack_def ly)
    have mf: "make_frame (Arr2 n (xs @ [ys] @ ds @ zs)) (NX @ [''y''] @ ND @ NZ) = Inr df"
      by (simp add: make_frame_def lx ld lz df_def)
    from a have z0: "z = Some (Arr2 n zs)" and zc0: "zc = Some NZ" by (simp_all add: nz)
    show ?thesis
      by (simp only: from_arrays_def X d seq.simps shape1_def ndarray.case option.case z0 zc0
          NX[symmetric] ND[symmetric] nz[symmetric] st mf)
  qed
  with I show ?thesis by (simp only: df_def)
qed

text \<open>
  When \<^verbatim>\<open>z\<close> is absent or two-dimensional, \<^verbatim>\<open>from_arrays\<close> returns an object that
  gives the arrays back under the generated names.
\<close>

lemma from_arrays_roundtrip:
  fixes xs ds zs :: "'v list list"
  assumes X: "assure X = Inr (Arr2 n xs)" and d: "assure d = Inr (Arr2 n ds)"
    and ne: "ds \<noteq> []" and ly: "length ys = n"
    and z: "z = None \<or> z = Some (Arr2 n zs)"
  shows "\<exists>obj. from_arrays assure X (Arr1 ys) d z u = Inr obj \<and>
           n_obs obj = n \<and> get_y obj = Arr1 ys \<and> get_d obj = Arr1 (hd ds) \<and>
           (length ds = 1 \<longrightarrow> get_x obj = Arr2 n xs) \<and>
           x_cols obj = numbered ''X'' (length xs) \<and> y_col obj = ''y'' \<and>
           d_cols obj = (if length ds = 1 then [''d''] else numbered ''d'' (length ds)) \<and>
           z_cols obj = (case z of None \<Rightarrow> None
                         | Some a \<Rightarrow> Some (if length zs = 1 then [''z'']
                                             else numbered ''z'' (length zs)))"
proof -
  define zs' where "zs' = (case z of None \<Rightarrow> [] | Some a \<Rightarrow> zs)"
  define zc where "zc = (case z of None \<Rightarrow> None
                         | Some a \<Rightarrow> Some (if length zs = 1 then [''z'']
                                             else numbered ''z'' (length zs)))"
  have z': "z = None \<and> zs' = [] \<and> zc = None \<or>
            z = Some (Arr2 n zs') \<and>
            zc = Some (if length zs' = 1 then [''z''] else numbered ''z'' (length zs'))"
    using z by (auto simp: zs'_def zc_def)
  have lx: "length (numbered ''X'' (length xs)) = length xs" by simp
  have single: "length ds = 1 \<Longrightarrow>
      tl (zip (if length ds = 1 then [''d''] else numbered ''d'' (length ds)) ds) = []"
    by (cases ds) auto
  show ?thesis
    unfolding from_arrays_result[OF X d ne ly z' refl refl refl, of u] zc_def[symmetric]
    using single
    by (auto simp: n_obs_def get_y_def get_d_def get_x_def frame_values_def lx)
qed

text \<open>
  C10. A single instrument passed as a vector makes \<^verbatim>\<open>from_arrays\<close> fail: \<^verbatim>\<open>z.shape[1]\<close>
  raises \<^verbatim>\<open>IndexError\<close>, since \<^verbatim>\<open>z\<close> is not passed through \<^verbatim>\<open>assure_2d_array\<close> as
  \<^verbatim>\<open>X\<close> and \<^verbatim>\<open>d\<close> are. The same call with the treatment as a vector and the
  instrument as a one-column array returns the treatment.
\<close>

theorem from_arrays_vector_instrument:
  "from_arrays column_of_vector (Arr2 2 [[5, 6], [7, 8::int]]) (Arr1 [1, 2]) (Arr1 [0, 1])
     (Some (Arr1 [3, 4])) True = Inl IndexError \<and>
   map_sum id get_d
     (from_arrays column_of_vector (Arr2 2 [[5, 6], [7, 8::int]]) (Arr1 [1, 2]) (Arr1 [0, 1])
        (Some (Arr2 2 [[3, 4]])) True) = Inr (Arr1 [0, 1])"
proof -
  have "from_arrays column_of_vector (Arr2 2 [[5, 6], [7, 8::int]]) (Arr1 [1, 2]) (Arr1 [0, 1])
     (Some (Arr1 [3, 4])) True = Inl IndexError"
    by (simp add: from_arrays_def column_of_vector_def shape1_def)
  moreover have "map_sum id get_d
     (from_arrays column_of_vector (Arr2 2 [[5, 6], [7, 8::int]]) (Arr1 [1, 2]) (Arr1 [0, 1])
        (Some (Arr2 2 [[3, 4]])) True) = Inr (Arr1 [0, 1])"
    by (subst from_arrays_result[where n = 2 and xs = "[[5, 6], [7, 8]]" and ds = "[[0, 1]]"
          and zs = "[[3, 4]]", OF _ _ _ _ _ refl refl refl])
       (simp_all add: column_of_vector_def get_d_def)
  ultimately show ?thesis by simp
qed

end
